theory Spec2Isabelle
  imports Complex_Main
begin

section \<open>Double-precision values\<close>

text \<open>
  The program computes in C++ \<open>double\<close>. A double is embedded as an exact real when it
  is finite and as \<open>NonFinite\<close> when it is an IEEE infinity or NaN. Arithmetic on
  finite values is exact (rounding and overflow are not modelled); a quotient whose divisor
  is zero is \<open>NonFinite\<close>, and an operation with a \<open>NonFinite\<close> operand is
  \<open>NonFinite\<close>. The sign of an infinity is not tracked, so the embedding says nothing
  more precise about a quotient whose divisor is itself non-finite.
\<close>

datatype double = Finite real | NonFinite

instantiation double :: "{zero, one, plus, minus, uminus, times, inverse}"
begin

definition zero_double :: double where
  "zero_double = Finite 0"

definition one_double :: double where
  "one_double = Finite 1"

fun plus_double :: "double \<Rightarrow> double \<Rightarrow> double" where
  "plus_double (Finite a) (Finite b) = Finite (a + b)"
| "plus_double _ _ = NonFinite"

fun minus_double :: "double \<Rightarrow> double \<Rightarrow> double" where
  "minus_double (Finite a) (Finite b) = Finite (a - b)"
| "minus_double _ _ = NonFinite"

fun uminus_double :: "double \<Rightarrow> double" where
  "uminus_double (Finite a) = Finite (- a)"
| "uminus_double NonFinite = NonFinite"

fun times_double :: "double \<Rightarrow> double \<Rightarrow> double" where
  "times_double (Finite a) (Finite b) = Finite (a * b)"
| "times_double _ _ = NonFinite"

fun divide_double :: "double \<Rightarrow> double \<Rightarrow> double" where
  "divide_double (Finite a) (Finite b) = (if b = 0 then NonFinite else Finite (a / b))"
| "divide_double _ _ = NonFinite"

fun inverse_double :: "double \<Rightarrow> double" where
  "inverse_double (Finite a) = (if a = 0 then NonFinite else Finite (inverse a))"
| "inverse_double NonFinite = NonFinite"

instance ..

end

text \<open>
  Addition and multiplication stay associative and commutative with \<open>NonFinite\<close>
  absorbing, and multiplication distributes over addition; there is no cancellation and
  \<open>0 * NonFinite\<close> is \<open>NonFinite\<close>.
\<close>

lemma double_commute: "x + y = y + x" "x * y = y * x" for x y :: double
  by (induct x; induct y; simp)+

lemma double_assoc: "x + y + z = x + (y + z)" "x * y * z = x * (y * z)" for x y z :: double
  by (induct x; induct y; induct z; simp)+

lemma double_neutral: "0 + x = x" "1 * x = x" for x :: double
  by (induct x; simp add: zero_double_def one_double_def)+

lemma double_distrib: "(x + y) * z = x * z + y * z" for x y z :: double
  by (induct x; induct y; induct z; simp add: ring_distribs)

instance double :: "{comm_monoid_add, comm_monoid_mult, comm_semiring}"
  by standard (rule double_commute double_assoc double_neutral double_distrib)+

instance double :: numeral ..

text \<open>\<open>cos\<close> and \<open>sin\<close> of \<open>math.h\<close>.\<close>

fun cos_d :: "double \<Rightarrow> double" where
  "cos_d (Finite a) = Finite (cos a)"
| "cos_d NonFinite = NonFinite"

fun sin_d :: "double \<Rightarrow> double" where
  "sin_d (Finite a) = Finite (sin a)"
| "sin_d NonFinite = NonFinite"

text \<open>The implicit conversion of an \<open>int\<close> operand in mixed arithmetic.\<close>

definition double_of_int :: "int \<Rightarrow> double" where
  "double_of_int i = Finite (of_int i)"

definition BOHR_IN_ANGSTROM :: double where
  "BOHR_IN_ANGSTROM = 0.529177249"

section \<open>Buffers\<close>

text \<open>
  A \<open>std::vector\<close> or \<open>GPU_Vector\<close> is a list. \<open>std::copy\<close> of a whole source
  vector onto the beginning of a destination overwrites the first \<open>length src\<close>
  elements of the destination (the destination is at least that long wherever the program
  calls it). \<open>copy_to_host\<close> and \<open>copy_from_host\<close> of a \<open>GPU_Vector\<close> transfer as
  many elements as the GPU vector holds.
\<close>

definition std_copy :: "'a list \<Rightarrow> 'a list \<Rightarrow> 'a list" where
  "std_copy src dst = src @ drop (length src) dst"

definition copy_to_host :: "'a list \<Rightarrow> 'a list \<Rightarrow> 'a list" where
  "copy_to_host gpu host = std_copy gpu host"

definition copy_from_host :: "'a list \<Rightarrow> 'a list \<Rightarrow> 'a list" where
  "copy_from_host gpu host = take (length gpu) host @ drop (length host) gpu"

text \<open>
  \<open>std::vector::resize\<close> keeps the elements that fit and value-initialises the new ones.
  \<open>GPU_Vector::resize\<close> (\<open>utilities/gpu_vector.cuh\<close>) allocates device memory whose
  contents are not initialised: nothing is known about them, and nothing below depends
  on them.
\<close>

definition resize :: "nat \<Rightarrow> 'a::zero list \<Rightarrow> 'a list" where
  "resize n v = take n v @ replicate (n - length v) 0"

definition gpu_resize :: "nat \<Rightarrow> 'a list \<Rightarrow> 'a list" where
  "gpu_resize n v = replicate n undefined"

text \<open>
  A kernel launch \<open><<<blocks, threads>>>\<close> runs the body once for every global thread
  index \<open>blockIdx.x * blockDim.x + threadIdx.x\<close>. The bodies launched this way below
  write only locations owned by their own thread, so running them one after the other gives
  the result of the parallel launch.
\<close>

definition launch :: "nat \<Rightarrow> nat \<Rightarrow> (nat \<Rightarrow> 'st \<Rightarrow> 'st) \<Rightarrow> 'st \<Rightarrow> 'st" where
  "launch blocks threads body = fold body [0..<blocks * threads]"

section \<open>State\<close>

text \<open>
  A member whose C++ name ends in an underscore carries the suffix \<open>_m\<close> here
  (\<open>mass_\<close> is \<open>mass_m\<close>), since a constant's name cannot end in an underscore.
\<close>

text \<open>
  The fields of \<open>Atom\<close> that \<open>cavity.cu\<close> uses. Atom counts are natural numbers: the
  program holds them in an \<open>int\<close> that is never negative, and \<open>(N - 1) / 128 + 1\<close> is 1
  for \<open>N = 0\<close> both in C and on \<open>nat\<close>.
\<close>

record atom =
  number_of_atoms :: nat
  atom_type :: "int list"
  mass :: "double list"
  position_per_atom :: "double list"
  force_per_atom :: "double list"
  virial_per_atom :: "double list"
  potential_per_atom :: "double list"
  cpu_type :: "int list"
  cpu_mass :: "double list"
  cpu_position_per_atom :: "double list"

record atom_cavity = atom +
  system_index :: "int list"
  cpu_system_index :: "int list"

record cavity =
  enabled_m :: bool
  number_of_atoms_m :: nat
  number_of_copied_systems_m :: nat
  number_of_atoms_in_copied_system_m :: nat
  coupling_strength :: double
  cavity_frequency :: double
  charge :: int
  mass_m :: double
  masses_m :: "double list"
  q0 :: double
  q :: double
  p :: double
  cos_integral :: double
  sin_integral :: double
  prevtime :: double
  prevdipole :: "double list"
  cavity_pot :: double
  cavity_kin :: double
  cpu_dipole_m :: "double list"
  gpu_dipole_m :: "double list"
  cpu_dipole_jacobian_m :: "double list"
  gpu_dipole_jacobian_m :: "double list"
  cpu_cavity_force_m :: "double list"
  gpu_cavity_force_m :: "double list"
  atom_copy :: atom
  atom_cavity :: atom_cavity

section \<open>The oscillator\<close>

definition canonical_position :: "double \<Rightarrow> cavity \<Rightarrow> cavity" where
  "canonical_position time s =
     (let phase = cavity_frequency s * time
      in s\<lparr>q := sin_d phase * cos_integral s
                - cos_d phase * sin_integral s
                + q0 s * cos_d phase\<rparr>)"

definition canonical_momentum :: "double \<Rightarrow> cavity \<Rightarrow> cavity" where
  "canonical_momentum time s =
     (let phase = cavity_frequency s * time
      in s\<lparr>p := cavity_frequency s * (
                cos_d phase * cos_integral s
                + sin_d phase * sin_integral s
                - q0 s * sin_d phase)\<rparr>)"

definition cavity_potential_energy :: "cavity \<Rightarrow> cavity" where
  "cavity_potential_energy s =
     (let coup_times_dip = coupling_strength s * cpu_dipole_m s ! 2;
          cav_factor = cavity_frequency s * q s - coup_times_dip
      in s\<lparr>cavity_pot := 0.5 * cav_factor * cav_factor\<rparr>)"

definition cavity_kinetic_energy :: "cavity \<Rightarrow> cavity" where
  "cavity_kinetic_energy s = s\<lparr>cavity_kin := 0.5 * p s * p s\<rparr>"

definition step_cavity :: "double \<Rightarrow> cavity \<Rightarrow> cavity" where
  "step_cavity time s =
     (let dt = time - prevtime s;
          prevlmu = coupling_strength s * prevdipole s ! 2;
          lmu = coupling_strength s * cpu_dipole_m s ! 2;
          s1 = s\<lparr>cos_integral :=
                    cos_integral s + 0.5 * dt * cos_d (cavity_frequency s * prevtime s) * prevlmu\<rparr>;
          s2 = s1\<lparr>sin_integral :=
                    sin_integral s1 + 0.5 * dt * sin_d (cavity_frequency s1 * prevtime s1) * prevlmu\<rparr>;
          s3 = s2\<lparr>cos_integral :=
                    cos_integral s2 + 0.5 * dt * cos_d (cavity_frequency s2 * time) * lmu\<rparr>;
          s4 = s3\<lparr>sin_integral :=
                    sin_integral s3 + 0.5 * dt * sin_d (cavity_frequency s3 * time) * lmu\<rparr>
      in s4\<lparr>prevtime := time,
             prevdipole := std_copy (cpu_dipole_m s4) (prevdipole s4)\<rparr>)"

text \<open>
  The test scenario of the specification: \<open>k\<close> calls of \<open>step_cavity\<close> at the uniformly
  spaced times \<open>t0 + dt\<close>, \<open>t0 + 2 dt\<close>, \<dots>, with no dipole evaluation in between
  (the sampled dipole stays constant).
\<close>

fun uniform_steps :: "real \<Rightarrow> real \<Rightarrow> nat \<Rightarrow> cavity \<Rightarrow> cavity" where
  "uniform_steps t0 dt 0 s = s"
| "uniform_steps t0 dt (Suc k) s =
     step_cavity (Finite (t0 + real (Suc k) * dt)) (uniform_steps t0 dt k s)"

text \<open>The independently computed trapezoidal-rule sum of the specification's test.\<close>

definition trapezoid :: "(real \<Rightarrow> real) \<Rightarrow> real \<Rightarrow> real \<Rightarrow> real \<Rightarrow> real \<Rightarrow> nat \<Rightarrow> real" where
  "trapezoid f w c t0 dt k =
     (\<Sum>n = 1..k. 0.5 * dt * (f (w * (t0 + real (n - 1) * dt)) + f (w * (t0 + real n * dt))) * c)"

section \<open>Kernels\<close>

subsection \<open>The two reductions\<close>

text \<open>
  \<open>sum_dipole\<close> and \<open>get_center_of_mass\<close> run as \<open><<<3, 1024>>>\<close>: block \<open>bid\<close>
  reduces component \<open>bid\<close>. Each of the 1024 threads first sums its strided patch of
  atoms; the shared array \<open>s_d\<close> is then folded in halves. All threads of a halving step
  read the array as the previous step left it (\<open>__syncthreads\<close>, \<open>__syncwarp\<close>), which
  \<open>tree_step\<close> expresses by computing the new array from the old one.
\<close>

definition sum_dipole_thread :: "nat \<Rightarrow> nat \<Rightarrow> double list \<Rightarrow> nat \<Rightarrow> nat \<Rightarrow> double" where
  "sum_dipole_thread N number_of_patches g_virial_per_atom bid tid =
     (let componentIdx = bid * N
      in fold (\<lambda>patch d.
                 let atomIdx = tid + patch * 1024
                 in if atomIdx < N then d + g_virial_per_atom ! (componentIdx + atomIdx) else d)
           [0..<number_of_patches] 0)"

definition get_center_of_mass_thread ::
    "nat \<Rightarrow> nat \<Rightarrow> double list \<Rightarrow> double list \<Rightarrow> nat \<Rightarrow> nat \<Rightarrow> double" where
  "get_center_of_mass_thread N number_of_patches g_mass_per_atom g_position_per_atom bid tid =
     (let componentIdx = bid * N
      in fold (\<lambda>patch d.
                 let atomIdx = tid + patch * 1024
                 in if atomIdx < N
                    then d + g_mass_per_atom ! atomIdx * g_position_per_atom ! (componentIdx + atomIdx)
                    else d)
           [0..<number_of_patches] 0)"

definition tree_step :: "nat \<Rightarrow> double list \<Rightarrow> double list" where
  "tree_step offset s_d =
     map (\<lambda>tid. if tid < offset then s_d ! tid + s_d ! (tid + offset) else s_d ! tid)
       [0..<length s_d]"

function aggregate_synced :: "nat \<Rightarrow> double list \<Rightarrow> double list" where
  "aggregate_synced offset s_d =
     (if offset > 32 then aggregate_synced (offset div 2) (tree_step offset s_d) else s_d)"
  by pat_completeness auto
termination
  by (relation "measure (\<lambda>(offset, s_d). offset)") auto

function aggregate_warp :: "nat \<Rightarrow> double list \<Rightarrow> double list" where
  "aggregate_warp offset s_d =
     (if offset > 0 then aggregate_warp (offset div 2) (tree_step offset s_d) else s_d)"
  by pat_completeness auto
termination
  by (relation "measure (\<lambda>(offset, s_d). offset)") auto

text \<open>The two aggregation loops of a block of \<open>blockDim.x = 1024\<close> threads; the result is \<open>s_d[0]\<close>.\<close>

definition aggregate :: "double list \<Rightarrow> double" where
  "aggregate s_d = aggregate_warp 32 (aggregate_synced (1024 div 2) s_d) ! 0"

definition sum_dipole :: "nat \<Rightarrow> nat \<Rightarrow> double list \<Rightarrow> double list \<Rightarrow> double list" where
  "sum_dipole N number_of_patches g_virial_per_atom g_dipole =
     fold (\<lambda>bid g. g[bid :=
             aggregate (map (sum_dipole_thread N number_of_patches g_virial_per_atom bid) [0..<1024])])
       [0..<3] g_dipole"

definition get_center_of_mass ::
    "nat \<Rightarrow> nat \<Rightarrow> double \<Rightarrow> double list \<Rightarrow> double list \<Rightarrow> double list \<Rightarrow> double list" where
  "get_center_of_mass N number_of_patches total_mass g_mass_per_atom g_position_per_atom
       g_center_of_mass =
     fold (\<lambda>bid g. g[bid :=
             aggregate (map (get_center_of_mass_thread N number_of_patches g_mass_per_atom
                               g_position_per_atom bid) [0..<1024])
             / total_mass])
       [0..<3] g_center_of_mass"

text \<open>
  The reference of the specification: a straightforward sequential left-to-right
  accumulation of the \<open>N\<close> values \<open>f 0\<close>, \<dots>, \<open>f (N - 1)\<close>.
\<close>

definition sequential_sum :: "nat \<Rightarrow> (nat \<Rightarrow> double) \<Rightarrow> double" where
  "sequential_sum N f = fold (\<lambda>atomIdx d. d + f atomIdx) [0..<N] 0"

subsection \<open>The element-wise kernels\<close>

definition copy_mass_and_type_to_cavity ::
    "nat \<Rightarrow> double list \<Rightarrow> int list \<Rightarrow> nat \<Rightarrow> double list \<times> int list \<Rightarrow> double list \<times> int list" where
  "copy_mass_and_type_to_cavity N ref_g_mass ref_g_type n1 =
     (\<lambda>(g_mass, g_type).
        if n1 < N
        then fold (\<lambda>i (g_mass, g_type).
                     (g_mass[n1 + i * N := ref_g_mass ! n1], g_type[n1 + i * N := ref_g_type ! n1]))
               [0..<12] (g_mass, g_type)
        else (g_mass, g_type))"

definition copy_positions :: "nat \<Rightarrow> double list \<Rightarrow> nat \<Rightarrow> double list \<Rightarrow> double list" where
  "copy_positions N ref_g_p n1 g_p =
     (if n1 < N
      then g_p[n1 + 0 * N := ref_g_p ! (n1 + 0 * N),
               n1 + 1 * N := ref_g_p ! (n1 + 1 * N),
               n1 + 2 * N := ref_g_p ! (n1 + 2 * N)]
      else g_p)"

definition apply_cavity_force :: "nat \<Rightarrow> double list \<Rightarrow> nat \<Rightarrow> double list \<Rightarrow> double list" where
  "apply_cavity_force N g_cav_force n1 g_force =
     (if n1 < N
      then (let g1 = g_force[n1 + 0 * N := g_force ! (n1 + 0 * N) + g_cav_force ! (n1 + 0 * N)];
                g2 = g1[n1 + 1 * N := g1 ! (n1 + 1 * N) + g_cav_force ! (n1 + 1 * N)]
            in g2[n1 + 2 * N := g2 ! (n1 + 2 * N) + g_cav_force ! (n1 + 2 * N)])
      else g_force)"

text \<open>
  \<open>initialize_properties\<close> receives \<open>g_fx\<close>, \<open>g_fy\<close>, \<open>g_fz\<close> as three pointers into the
  one force buffer; they are the offsets \<open>fx\<close>, \<open>fy\<close>, \<open>fz\<close> here.
\<close>

definition initialize_properties ::
    "nat \<Rightarrow> nat \<Rightarrow> nat \<Rightarrow> nat \<Rightarrow> nat \<Rightarrow> double list \<times> double list \<times> double list
       \<Rightarrow> double list \<times> double list \<times> double list" where
  "initialize_properties N fx fy fz n1 =
     (\<lambda>(g_f, g_pe, g_virial).
        if n1 < N
        then (g_f[fx + n1 := 0, fy + n1 := 0, fz + n1 := 0],
              g_pe[n1 := 0],
              fold (\<lambda>c g. g[n1 + c * N := 0]) [0..<9] g_virial)
        else (g_f, g_pe, g_virial))"

section \<open>The class \<open>Cavity\<close>\<close>

text \<open>
  \<open>PRINT_INPUT_ERROR\<close> (\<open>utilities/error.cuh\<close>) reports the message and terminates the
  run; it is the only way in which \<open>cavity.cu\<close> itself stops a run.
\<close>

datatype error = InputError string

text \<open>
  The two \<open>NEP3Cavity\<close> evaluators are external. \<open>compute\<close> receives the types and
  positions and updates the per-atom potential, force and virial buffers (the virial buffer
  of a dipole model holds the per-atom dipole contributions); \<open>compute_jacobian\<close> receives
  the system index of every atom as well. The box is part of the evaluator.
\<close>

type_synonym properties = "double list \<times> double list \<times> double list"

type_synonym nep3_compute = "int list \<Rightarrow> double list \<Rightarrow> properties \<Rightarrow> properties"

type_synonym nep3_compute_jacobian =
  "int list \<Rightarrow> double list \<Rightarrow> properties \<Rightarrow> int list \<Rightarrow> properties"

subsection \<open>\<open>Cavity::parse\<close>\<close>

text \<open>
  \<open>count\<close> is what \<open>fscanf\<close> returned on the potential file. \<open>is_valid_real\<close> and
  \<open>is_valid_int\<close> (\<open>utilities/read_file.cuh\<close>) are given by their outcome on
  \<open>param[2]\<close>, \<open>param[3]\<close> and \<open>param[4]\<close>: \<open>None\<close> when the token is rejected,
  otherwise the (finite) value stored through the pointer. Opening the potential file and
  constructing the two \<open>NEP3Cavity\<close> objects, which are the evaluators passed to the
  functions below, is left out; the products \<open>12 * N\<close> and \<open>12 * N * N\<close> are taken
  without the overflow of \<open>int\<close>.
\<close>

definition parse ::
    "int \<Rightarrow> int \<Rightarrow> real option \<Rightarrow> real option \<Rightarrow> int option \<Rightarrow> nat \<Rightarrow> cavity \<Rightarrow> error + cavity" where
  "parse count num_param param2 param3 param4 n_atoms s =
     (let s = s\<lparr>enabled_m := True\<rparr>
      in if count \<noteq> 1 then Inl (InputError ''reading error for potential file.'')
         else
           let s = s\<lparr>number_of_atoms_m := n_atoms\<rparr>;
               s = s\<lparr>number_of_copied_systems_m := 12 * number_of_atoms_m s\<rparr>;
               s = s\<lparr>number_of_atoms_in_copied_system_m :=
                        number_of_copied_systems_m s * number_of_atoms_m s\<rparr>
           in if num_param \<noteq> 5 then Inl (InputError ''cavity should have 4 parameters.'')
              else case param2 of
                None \<Rightarrow> Inl (InputError ''coupling strength should be a real number.'')
              | Some v2 \<Rightarrow>
                  let s = s\<lparr>coupling_strength := Finite v2\<rparr>
                  in if v2 < 0 then Inl (InputError ''coupling strength cannot be negative.'')
                     else case param3 of
                       None \<Rightarrow> Inl (InputError ''cavity frequency should be a real number.'')
                     | Some v3 \<Rightarrow>
                         let s = s\<lparr>cavity_frequency := Finite v3\<rparr>
                         in if v3 < 0
                            then Inl (InputError ''cavity frequency cannot be negative.'')
                            else case param4 of
                              None \<Rightarrow>
                                Inl (InputError ''total system charge should be an integer.'')
                            | Some v4 \<Rightarrow> Inr (s\<lparr>charge := v4\<rparr>))"

subsection \<open>Dipole and center of mass\<close>

definition get_dipole :: "nep3_compute \<Rightarrow> cavity \<Rightarrow> cavity" where
  "get_dipole potential s =
     (let N = number_of_atoms_m s;
          (g_f, g_pe, g_virial) =
            launch ((N - 1) div 128 + 1) 128 (initialize_properties N 0 N (N * 2))
              (force_per_atom (atom_copy s), potential_per_atom (atom_copy s),
               virial_per_atom (atom_copy s));
          s = s\<lparr>atom_copy := (atom_copy s)\<lparr>force_per_atom := g_f, potential_per_atom := g_pe,
                                              virial_per_atom := g_virial\<rparr>\<rparr>;
          s = s\<lparr>cpu_dipole_m := (cpu_dipole_m s)[0 := 0, 1 := 0, 2 := 0]\<rparr>;
          s = s\<lparr>gpu_dipole_m := copy_from_host (gpu_dipole_m s) (cpu_dipole_m s)\<rparr>;
          (g_pe, g_f, g_virial) =
            potential (atom_type (atom_copy s)) (position_per_atom (atom_copy s))
              (potential_per_atom (atom_copy s), force_per_atom (atom_copy s),
               virial_per_atom (atom_copy s));
          s = s\<lparr>atom_copy := (atom_copy s)\<lparr>force_per_atom := g_f, potential_per_atom := g_pe,
                                              virial_per_atom := g_virial\<rparr>\<rparr>;
          number_of_threads = 1024;
          number_of_atoms_per_thread = (N - 1) div number_of_threads + 1
      in s\<lparr>gpu_dipole_m :=
             sum_dipole N number_of_atoms_per_thread (virial_per_atom (atom_copy s))
               (gpu_dipole_m s)\<rparr>)"

text \<open>\<open>Cavity::_get_center_of_mass\<close>; the argument and result is \<open>gpu_center_of_mass\<close>.\<close>

definition cavity_get_center_of_mass :: "cavity \<Rightarrow> double list \<Rightarrow> double list" where
  "cavity_get_center_of_mass s gpu_center_of_mass =
     (let number_of_threads = 1024;
          number_of_atoms_per_thread = (number_of_atoms_m s - 1) div number_of_threads + 1
      in get_center_of_mass (number_of_atoms_m s) number_of_atoms_per_thread (mass_m s)
           (mass (atom_copy s)) (position_per_atom (atom_copy s)) gpu_center_of_mass)"

subsection \<open>\<open>Cavity::get_dipole_jacobian\<close>\<close>

text \<open>
  Step 1 for one axis \<open>i\<close>, atom \<open>j\<close> and stencil point \<open>k\<close>: the body of the innermost
  of the three loops. It works on \<open>atom_cavity.cpu_position_per_atom\<close> and
  \<open>atom_cavity.cpu_system_index\<close>; \<open>ref\<close> is \<open>atom_copy.cpu_position_per_atom\<close>.
  Every index it writes lies inside the buffers as \<open>initialize\<close> sizes them.
\<close>

definition displace_replica ::
    "nat \<Rightarrow> double list \<Rightarrow> double list \<Rightarrow> nat \<Rightarrow> nat \<Rightarrow> nat
       \<Rightarrow> double list \<times> int list \<Rightarrow> double list \<times> int list" where
  "displace_replica N shifts ref i j k =
     (\<lambda>(cavity_position, cavity_system_index).
        let values_per_direction = 4 * N;
            displaced_index = N * i + j;
            copy_index = values_per_direction * i + j * 4 + k;
            cavity_position =
              fold (\<lambda>l b. b[copy_index * N + l := ref ! l]) [0..<3 * N] cavity_position;
            cavity_position =
              cavity_position[copy_index + displaced_index :=
                cavity_position ! (copy_index + displaced_index) + shifts ! k];
            cavity_system_index =
              fold (\<lambda>l b. b[copy_index * N + l := int copy_index]) [0..<N] cavity_system_index
        in (cavity_position, cavity_system_index))"

definition setup_replicas ::
    "nat \<Rightarrow> double \<Rightarrow> double list \<Rightarrow> double list \<times> int list \<Rightarrow> double list \<times> int list" where
  "setup_replicas N displacement ref =
     (let N_cartesian = 3;
          shifts = [displacement, 2 * displacement, - 1 * displacement, - 2 * displacement]
      in fold (\<lambda>i. fold (\<lambda>j. fold (\<lambda>k. displace_replica N shifts ref i j k) [0..<4]) [0..<N])
           [0..<N_cartesian])"

text \<open>
  Step 3 for one axis \<open>i\<close> and atom \<open>j\<close>. The four local center-of-mass vectors are
  shifted and restored; the three Jacobian entries are assigned. The index variables
  \<open>displaced_index\<close>, \<open>copy_index\<close>, \<open>forward_one_h_index\<close>, \<dots> that the source
  computes in this step and never reads are left out.
\<close>

type_synonym fd_locals = "double list \<times> double list \<times> double list \<times> double list"

definition collect_jacobian ::
    "double \<Rightarrow> double list \<Rightarrow> nat \<Rightarrow> nat \<Rightarrow> fd_locals \<times> double list \<Rightarrow> fd_locals \<times> double list" where
  "collect_jacobian displacement_over_M masses i j =
     (\<lambda>((center_of_mass_forward_one_h, center_of_mass_forward_two_h,
          center_of_mass_backward_one_h, center_of_mass_backward_two_h), jacobian).
        let N_components = 3;
            values_per_atom = 9;
            old_center_of_mass = center_of_mass_forward_one_h ! i;
            f1 = center_of_mass_forward_one_h
                   [i := center_of_mass_forward_one_h ! i + displacement_over_M * masses ! j];
            f2 = center_of_mass_forward_two_h
                   [i := center_of_mass_forward_two_h ! i + 2 * displacement_over_M * masses ! j];
            b1 = center_of_mass_backward_one_h
                   [i := center_of_mass_backward_one_h ! i - displacement_over_M * masses ! j];
            b2 = center_of_mass_backward_two_h
                   [i := center_of_mass_backward_two_h ! i - 2 * displacement_over_M * masses ! j];
            jacobian =
              fold (\<lambda>k jac. jac[i * N_components + j * values_per_atom + k := 1])
                [0..<N_components] jacobian
        in ((f1[i := old_center_of_mass], f2[i := old_center_of_mass],
             b1[i := old_center_of_mass], b2[i := old_center_of_mass]), jacobian))"

definition get_dipole_jacobian ::
    "nep3_compute_jacobian \<Rightarrow> double \<Rightarrow> double \<Rightarrow> cavity \<Rightarrow> cavity" where
  "get_dipole_jacobian potential_jacobian displacement charge_d s =
     (let N = number_of_atoms_m s;
          M = number_of_atoms_in_copied_system_m s;
          N_cartesian = 3;
          gpu_center_of_mass = cavity_get_center_of_mass s (gpu_resize 3 []);
          center_of_mass_forward_one_h = copy_to_host gpu_center_of_mass (replicate 3 0);
          center_of_mass_forward_two_h = center_of_mass_forward_one_h;
          center_of_mass_backward_one_h = center_of_mass_forward_one_h;
          center_of_mass_backward_two_h = center_of_mass_forward_one_h;
          displacement_over_M = displacement / mass_m s;
          one_over_displacement = 1 / displacement;
          s = s\<lparr>atom_copy := (atom_copy s)\<lparr>cpu_position_per_atom :=
                   copy_to_host (position_per_atom (atom_copy s))
                     (cpu_position_per_atom (atom_copy s))\<rparr>\<rparr>;
          (cavity_position, cavity_system_index) =
            setup_replicas N displacement (cpu_position_per_atom (atom_copy s))
              (cpu_position_per_atom (atom_cavity s), cpu_system_index (atom_cavity s));
          s = s\<lparr>atom_cavity := (atom_cavity s)\<lparr>cpu_position_per_atom := cavity_position,
                                                  cpu_system_index := cavity_system_index\<rparr>\<rparr>;
          s = s\<lparr>atom_cavity := (atom_cavity s)\<lparr>position_per_atom :=
                   copy_from_host (position_per_atom (atom_cavity s))
                     (cpu_position_per_atom (atom_cavity s))\<rparr>\<rparr>;
          s = s\<lparr>atom_cavity := (atom_cavity s)\<lparr>system_index :=
                   copy_from_host (system_index (atom_cavity s))
                     (cpu_system_index (atom_cavity s))\<rparr>\<rparr>;
          (g_f, g_pe, g_virial) =
            launch ((M - 1) div 128 + 1) 128 (initialize_properties M 0 M (M * 2))
              (force_per_atom (atom_cavity s), potential_per_atom (atom_cavity s),
               virial_per_atom (atom_cavity s));
          s = s\<lparr>atom_cavity := (atom_cavity s)\<lparr>force_per_atom := g_f,
                   potential_per_atom := g_pe, virial_per_atom := g_virial\<rparr>\<rparr>;
          (g_pe, g_f, g_virial) =
            potential_jacobian (atom_type (atom_cavity s)) (position_per_atom (atom_cavity s))
              (potential_per_atom (atom_cavity s), force_per_atom (atom_cavity s),
               virial_per_atom (atom_cavity s))
              (system_index (atom_cavity s));
          s = s\<lparr>atom_cavity := (atom_cavity s)\<lparr>force_per_atom := g_f,
                   potential_per_atom := g_pe, virial_per_atom := g_virial\<rparr>\<rparr>;
          (locals, jacobian) =
            fold (\<lambda>i. fold (\<lambda>j. collect_jacobian displacement_over_M (masses_m s) i j) [0..<N])
              [0..<N_cartesian]
              ((center_of_mass_forward_one_h, center_of_mass_forward_two_h,
                center_of_mass_backward_one_h, center_of_mass_backward_two_h),
               cpu_dipole_jacobian_m s)
      in s\<lparr>cpu_dipole_jacobian_m := jacobian\<rparr>)"

subsection \<open>\<open>Cavity::compute_dipole_and_jacobian\<close> and \<open>Cavity::initialize\<close>\<close>

text \<open>\<open>atom\<close> is the \<open>Atom\<close> of the outer simulation.\<close>

definition compute_dipole_and_jacobian ::
    "nep3_compute \<Rightarrow> nep3_compute_jacobian \<Rightarrow> int \<Rightarrow> atom \<Rightarrow> cavity \<Rightarrow> cavity" where
  "compute_dipole_and_jacobian potential potential_jacobian step atom s =
     (if \<not> enabled_m s then s
      else
        let N = number_of_atoms_m s;
            s = s\<lparr>atom_copy := (atom_copy s)\<lparr>position_per_atom :=
                     launch ((N - 1) div 128 + 1) 128 (copy_positions N (position_per_atom atom))
                       (position_per_atom (atom_copy s))\<rparr>\<rparr>;
            s = get_dipole potential s;
            s = s\<lparr>cpu_dipole_m := copy_to_host (gpu_dipole_m s) (cpu_dipole_m s)\<rparr>;
            gpu_center_of_mass = cavity_get_center_of_mass s (gpu_resize 3 []);
            cpu_center_of_mass = copy_to_host gpu_center_of_mass (replicate 3 0);
            s = fold (\<lambda>i s.
                        let s = s\<lparr>cpu_dipole_m :=
                                    (cpu_dipole_m s)[i := cpu_dipole_m s ! i * BOHR_IN_ANGSTROM]\<rparr>
                        in s\<lparr>cpu_dipole_m :=
                               (cpu_dipole_m s)[i := cpu_dipole_m s ! i
                                  + double_of_int (charge s) * cpu_center_of_mass ! i]\<rparr>)
                  [0..<3] s
        in get_dipole_jacobian potential_jacobian 0.001 (double_of_int (charge s)) s)"

text \<open>
  \<open>potentials\<close> lists the \<open>nep_model_type\<close> of every potential in \<open>force.potentials\<close>.
  Opening the two output files is left out.
\<close>

definition initialize ::
    "nep3_compute \<Rightarrow> nep3_compute_jacobian \<Rightarrow> int list \<Rightarrow> atom \<Rightarrow> cavity \<Rightarrow> error + cavity" where
  "initialize potential potential_jacobian potentials atom s =
     (if enabled_m s
      then
        let number_of_potentials = length potentials;
            N = number_of_atoms_m s;
            M = number_of_atoms_in_copied_system_m s;
            s = s\<lparr>prevdipole := resize 3 (prevdipole s),
                  cpu_dipole_m := resize 3 (cpu_dipole_m s),
                  cpu_dipole_jacobian_m := resize (N * 3 * 3) (cpu_dipole_jacobian_m s),
                  cpu_cavity_force_m := resize (N * 3) (cpu_cavity_force_m s),
                  gpu_dipole_m := gpu_resize 3 (gpu_dipole_m s),
                  gpu_dipole_jacobian_m := gpu_resize (N * 3 * 3) (gpu_dipole_jacobian_m s),
                  gpu_cavity_force_m := gpu_resize (N * 3) (gpu_cavity_force_m s)\<rparr>;
            s = s\<lparr>atom_copy := (atom_copy s)\<lparr>
                  number_of_atoms := N,
                  atom_type := gpu_resize N (atom_type (atom_copy s)),
                  mass := gpu_resize N (mass (atom_copy s)),
                  position_per_atom := gpu_resize (N * 3) (position_per_atom (atom_copy s)),
                  force_per_atom := gpu_resize (N * 3) (force_per_atom (atom_copy s)),
                  virial_per_atom := gpu_resize (N * 9) (virial_per_atom (atom_copy s)),
                  potential_per_atom := gpu_resize N (potential_per_atom (atom_copy s)),
                  cpu_type := resize N (cpu_type (atom_copy s)),
                  cpu_mass := resize N (cpu_mass (atom_copy s)),
                  cpu_position_per_atom := resize (N * 3) (cpu_position_per_atom (atom_copy s))\<rparr>\<rparr>;
            s = s\<lparr>atom_cavity := (atom_cavity s)\<lparr>
                  number_of_atoms := M,
                  atom_type := gpu_resize M (atom_type (atom_cavity s)),
                  mass := gpu_resize M (mass (atom_cavity s)),
                  position_per_atom := gpu_resize (M * 3) (position_per_atom (atom_cavity s)),
                  force_per_atom := gpu_resize (M * 3) (force_per_atom (atom_cavity s)),
                  virial_per_atom := gpu_resize (M * 9) (virial_per_atom (atom_cavity s)),
                  potential_per_atom := gpu_resize M (potential_per_atom (atom_cavity s)),
                  cpu_type := resize M (cpu_type (atom_cavity s)),
                  cpu_mass := resize M (cpu_mass (atom_cavity s)),
                  cpu_position_per_atom := resize (M * 3) (cpu_position_per_atom (atom_cavity s)),
                  system_index := gpu_resize M (system_index (atom_cavity s)),
                  cpu_system_index := resize M (cpu_system_index (atom_cavity s))\<rparr>\<rparr>
        in if number_of_potentials \<noteq> 2
           then Inl (InputError ''cavity requires two potentials to be specified.'')
           else if potentials ! 1 \<noteq> 1
           then Inl (InputError
                  ''cavity requires the second NEP potential to be a dipole model.'')
           else
             let s = s\<lparr>masses_m := resize N (masses_m s)\<rparr>;
                 s = fold (\<lambda>i s.
                             let m_i = cpu_mass atom ! i
                             in s\<lparr>masses_m := (masses_m s)[i := m_i], mass_m := mass_m s + m_i\<rparr>)
                       [0..<N] s;
                 s = s\<lparr>atom_copy := (atom_copy s)\<lparr>atom_type :=
                          copy_from_host (atom_type (atom_copy s)) (cpu_type atom)\<rparr>\<rparr>;
                 s = s\<lparr>atom_copy := (atom_copy s)\<lparr>mass :=
                          copy_from_host (mass (atom_copy s)) (cpu_mass atom)\<rparr>\<rparr>;
                 (g_mass, g_type) =
                   launch ((N - 1) div 128 + 1) 128
                     (copy_mass_and_type_to_cavity N (mass atom) (atom_type atom))
                     (mass (atom_cavity s), atom_type (atom_cavity s));
                 s = s\<lparr>atom_cavity := (atom_cavity s)\<lparr>mass := g_mass, atom_type := g_type\<rparr>\<rparr>;
                 s = compute_dipole_and_jacobian potential potential_jacobian 0 atom s;
                 s = s\<lparr>q0 := coupling_strength s * cpu_dipole_m s ! 2 / cavity_frequency s\<rparr>;
                 s = s\<lparr>cos_integral := 0, sin_integral := 0, prevtime := 0\<rparr>
             in Inr (s\<lparr>prevdipole := std_copy (cpu_dipole_m s) (prevdipole s)\<rparr>)
      else Inr s)"

subsection \<open>The force on the atoms\<close>

definition cavity_force :: "cavity \<Rightarrow> cavity" where
  "cavity_force s =
     (let N = number_of_atoms_m s;
          s = s\<lparr>cpu_cavity_force_m := fold (\<lambda>i f. f[i := 0]) [0..<3 * N] (cpu_cavity_force_m s)\<rparr>;
          cav_factor = cavity_frequency s * q s - coupling_strength s * cpu_dipole_m s ! 2;
          N_components = 3;
          values_per_atom = 9
      in s\<lparr>cpu_cavity_force_m :=
             fold (\<lambda>j f.
                     f[j + 0 * N := cav_factor * coupling_strength s
                          * cpu_dipole_jacobian_m s ! (0 * N_components + j * values_per_atom + 2),
                       j + 1 * N := cav_factor * coupling_strength s
                          * cpu_dipole_jacobian_m s ! (1 * N_components + j * values_per_atom + 2),
                       j + 2 * N := cav_factor * coupling_strength s
                          * cpu_dipole_jacobian_m s ! (2 * N_components + j * values_per_atom + 2)])
               [0..<N] (cpu_cavity_force_m s)\<rparr>)"

definition compute_and_apply_cavity_force :: "atom \<Rightarrow> cavity \<Rightarrow> cavity \<times> atom" where
  "compute_and_apply_cavity_force atom s =
     (if \<not> enabled_m s then (s, atom)
      else
        let N = number_of_atoms_m s;
            s = cavity_force s;
            s = s\<lparr>gpu_cavity_force_m :=
                     copy_from_host (gpu_cavity_force_m s) (cpu_cavity_force_m s)\<rparr>
        in (s, atom\<lparr>force_per_atom :=
                      launch ((N - 1) div 128 + 1) 128
                        (apply_cavity_force N (gpu_cavity_force_m s)) (force_per_atom atom)\<rparr>))"

subsection \<open>\<open>Cavity::update_cavity\<close>\<close>

text \<open>
  \<open>TIME_UNIT_CONVERSION\<close> (\<open>utilities/common.cuh\<close>) is a parameter. The oscillator is
  stepped to the converted time and its position, momentum and energies are evaluated at
  that same time.
\<close>

definition update_cavity :: "double \<Rightarrow> int \<Rightarrow> double \<Rightarrow> cavity \<Rightarrow> cavity" where
  "update_cavity TIME_UNIT_CONVERSION step global_time s =
     (if \<not> enabled_m s then s
      else
        let time = global_time * TIME_UNIT_CONVERSION;
            s = step_cavity time s;
            s = canonical_position time s;
            s = canonical_momentum time s;
            s = cavity_potential_energy s
        in cavity_kinetic_energy s)"

section \<open>The stored Jacobian entries\<close>

text \<open>
  The three assignments that Step 3 of \<open>get_dipole_jacobian\<close> makes for axis \<open>i\<close> and
  atom \<open>j\<close>, taken out of \<open>collect_jacobian\<close>.
\<close>

definition placeholder :: "nat \<Rightarrow> nat \<Rightarrow> double list \<Rightarrow> double list" where
  "placeholder i j jac = jac[i * 3 + j * 9 + 0 := 1, i * 3 + j * 9 + 1 := 1, i * 3 + j * 9 + 2 := 1]"

section \<open>The reported dipole\<close>

text \<open>
  The value that the specification gives for component \<open>c\<close> of the dipole: the sum of the
  \<open>N\<close> per-atom contributions times the conversion constant, plus the charge times the
  center of mass \<open>\<Sum> mass\<^sub>i position\<^sub>i / total_mass\<close> of that axis.
\<close>

definition corrected_dipole ::
    "nat \<Rightarrow> double list \<Rightarrow> double list \<Rightarrow> double list \<Rightarrow> double \<Rightarrow> int \<Rightarrow> nat \<Rightarrow> double" where
  "corrected_dipole N contributions masses positions total_mass ch c =
     (\<Sum>a<N. contributions ! (c * N + a)) * BOHR_IN_ANGSTROM
     + double_of_int ch * ((\<Sum>a<N. masses ! a * positions ! (c * N + a)) / total_mass)"

section \<open>Example configurations\<close>

text \<open>
  Evaluators for the examples: \<open>null_compute\<close> leaves the buffers as they are (all
  per-atom contributions stay zero), \<open>example_compute\<close> returns the contributions
  \<open>0, 1, \<dots>, 17\<close> of a two-atom system.
\<close>

definition null_compute :: nep3_compute where
  "null_compute types positions properties = properties"

definition null_compute_jacobian :: nep3_compute_jacobian where
  "null_compute_jacobian types positions properties indices = properties"

definition example_compute :: nep3_compute where
  "example_compute types positions =
     (\<lambda>(g_pe, g_f, g_virial). (g_pe, g_f, map (\<lambda>n. Finite (real n)) [0..<18]))"

text \<open>
  A \<open>Cavity\<close> as \<open>parse\<close> leaves it for one atom, coupling strength 1, frequency 1
  and charge 0, with the total mass not yet accumulated; an outer system of one atom of
  mass 2, and one whose atom has mass zero.
\<close>

definition parsed_cavity :: cavity where
  "parsed_cavity =
     \<lparr>enabled_m = True,
      number_of_atoms_m = 1,
      number_of_copied_systems_m = 12,
      number_of_atoms_in_copied_system_m = 12,
      coupling_strength = Finite 1,
      cavity_frequency = Finite 1,
      charge = 0,
      mass_m = Finite 0,
      masses_m = [],
      q0 = Finite 0,
      q = Finite 0,
      p = Finite 0,
      cos_integral = Finite 0,
      sin_integral = Finite 0,
      prevtime = Finite 0,
      prevdipole = [],
      cavity_pot = Finite 0,
      cavity_kin = Finite 0,
      cpu_dipole_m = [],
      gpu_dipole_m = [],
      cpu_dipole_jacobian_m = [],
      gpu_dipole_jacobian_m = [],
      cpu_cavity_force_m = [],
      gpu_cavity_force_m = [],
      atom_copy =
        \<lparr>number_of_atoms = 0, atom_type = [], mass = [], position_per_atom = [],
         force_per_atom = [], virial_per_atom = [], potential_per_atom = [], cpu_type = [],
         cpu_mass = [], cpu_position_per_atom = []\<rparr>,
      atom_cavity =
        \<lparr>number_of_atoms = 0, atom_type = [], mass = [], position_per_atom = [],
         force_per_atom = [], virial_per_atom = [], potential_per_atom = [], cpu_type = [],
         cpu_mass = [], cpu_position_per_atom = [], system_index = [],
         cpu_system_index = []\<rparr>\<rparr>"

definition single_atom :: atom where
  "single_atom =
     \<lparr>number_of_atoms = 1,
      atom_type = [0],
      mass = [Finite 2],
      position_per_atom = [Finite 1, Finite 2, Finite 3],
      force_per_atom = [Finite 0, Finite 0, Finite 0],
      virial_per_atom = replicate 9 (Finite 0),
      potential_per_atom = [Finite 0],
      cpu_type = [0],
      cpu_mass = [Finite 2],
      cpu_position_per_atom = [Finite 1, Finite 2, Finite 3]\<rparr>"

definition massless_atom :: atom where
  "massless_atom =
     \<lparr>number_of_atoms = 1,
      atom_type = [0],
      mass = [Finite 0],
      position_per_atom = [Finite 1, Finite 2, Finite 3],
      force_per_atom = [Finite 0, Finite 0, Finite 0],
      virial_per_atom = replicate 9 (Finite 0),
      potential_per_atom = [Finite 0],
      cpu_type = [0],
      cpu_mass = [Finite 0],
      cpu_position_per_atom = [Finite 1, Finite 2, Finite 3]\<rparr>"

text \<open>
  A system of two atoms (positions \<open>[x1, x2, y1, y2, z1, z2]\<close>) and a cavity state
  with the buffer sizes that \<open>initialize\<close> gives for it.
\<close>

definition example_atom :: atom where
  "example_atom =
     \<lparr>number_of_atoms = 2,
      atom_type = [0, 1],
      mass = [Finite 1, Finite 3],
      position_per_atom = [Finite 1, Finite 2, Finite 3, Finite 4, Finite 5, Finite 6],
      force_per_atom = [Finite 10, Finite 20, Finite 30, Finite 40, Finite 50, Finite 60],
      virial_per_atom = replicate 18 (Finite 0),
      potential_per_atom = [Finite 0, Finite 0],
      cpu_type = [0, 1],
      cpu_mass = [Finite 1, Finite 3],
      cpu_position_per_atom = [Finite 1, Finite 2, Finite 3, Finite 4, Finite 5, Finite 6]\<rparr>"

definition example_atom_cavity :: atom_cavity where
  "example_atom_cavity =
     \<lparr>number_of_atoms = 48,
      atom_type = replicate 48 0,
      mass = replicate 48 (Finite 1),
      position_per_atom = replicate 144 (Finite 0),
      force_per_atom = replicate 144 (Finite 0),
      virial_per_atom = replicate 432 (Finite 0),
      potential_per_atom = replicate 48 (Finite 0),
      cpu_type = replicate 48 0,
      cpu_mass = replicate 48 (Finite 0),
      cpu_position_per_atom = replicate 144 (Finite 0),
      system_index = replicate 48 0,
      cpu_system_index = replicate 48 0\<rparr>"

definition example_cavity :: cavity where
  "example_cavity =
     \<lparr>enabled_m = True,
      number_of_atoms_m = 2,
      number_of_copied_systems_m = 24,
      number_of_atoms_in_copied_system_m = 48,
      coupling_strength = Finite 2,
      cavity_frequency = Finite 1,
      charge = 1,
      mass_m = Finite 4,
      masses_m = [Finite 1, Finite 3],
      q0 = Finite 6,
      q = Finite 7,
      p = Finite 0,
      cos_integral = Finite 0,
      sin_integral = Finite 0,
      prevtime = Finite 0,
      prevdipole = [Finite 1, Finite 2, Finite 3],
      cavity_pot = Finite 0,
      cavity_kin = Finite 0,
      cpu_dipole_m = [Finite 1, Finite 2, Finite 3],
      gpu_dipole_m = [Finite 1, Finite 2, Finite 3],
      cpu_dipole_jacobian_m = map (\<lambda>n. Finite (real n)) [0..<18],
      gpu_dipole_jacobian_m = replicate 18 (Finite 0),
      cpu_cavity_force_m = replicate 6 (Finite 0),
      gpu_cavity_force_m = replicate 6 (Finite 0),
      atom_copy = example_atom,
      atom_cavity = example_atom_cavity\<rparr>"

section \<open>Arithmetic of doubles\<close>

lemma numeral_double: "(numeral k :: double) = Finite (numeral k)"
proof (induction k)
  case One
  show ?case by (simp only: numeral.simps one_double_def)
next
  case (Bit0 k)
  have "(numeral (num.Bit0 k) :: double) = Finite (numeral k) + Finite (numeral k)"
    by (simp only: numeral.simps Bit0)
  also have "\<dots> = Finite (numeral (num.Bit0 k))"
    by (simp only: numeral.simps plus_double.simps)
  finally show ?case .
next
  case (Bit1 k)
  have "(numeral (num.Bit1 k) :: double) = Finite (numeral k) + Finite (numeral k) + Finite 1"
    by (simp only: numeral.simps Bit1 one_double_def)
  also have "\<dots> = Finite (numeral (num.Bit1 k))"
    by (simp only: numeral.simps plus_double.simps)
  finally show ?case .
qed

lemma half_double: "(0.5 :: double) = Finite (1 / 2)"
  by (simp add: numeral_double)

section \<open>The oscillator: claims C3 and C4\<close>

lemma std_copy_same_length: "length dst = length src \<Longrightarrow> std_copy src dst = src"
  by (simp add: std_copy_def)

lemma step_cavity_fields:
  "coupling_strength (step_cavity t s) = coupling_strength s"
  "cavity_frequency (step_cavity t s) = cavity_frequency s"
  "cpu_dipole_m (step_cavity t s) = cpu_dipole_m s"
  "prevtime (step_cavity t s) = t"
  "prevdipole (step_cavity t s) = std_copy (cpu_dipole_m s) (prevdipole s)"
  by (simp_all add: step_cavity_def Let_def)

lemma step_cavity_cos:
  "cos_integral (step_cavity t s) = cos_integral s + 0.5 * (t - prevtime s) *
      (cos_d (cavity_frequency s * prevtime s) * coupling_strength s * prevdipole s ! 2
       + cos_d (cavity_frequency s * t) * coupling_strength s * cpu_dipole_m s ! 2)"
  by (simp add: step_cavity_def Let_def distrib_left ac_simps)

lemma step_cavity_sin:
  "sin_integral (step_cavity t s) = sin_integral s + 0.5 * (t - prevtime s) *
      (sin_d (cavity_frequency s * prevtime s) * coupling_strength s * prevdipole s ! 2
       + sin_d (cavity_frequency s * t) * coupling_strength s * cpu_dipole_m s ! 2)"
  by (simp add: step_cavity_def Let_def distrib_left ac_simps)

lemma uniform_steps_closed_form:
  assumes "length (cpu_dipole_m s) = 3" "length (prevdipole s) = 3"
    and "coupling_strength s = Finite lam" "cavity_frequency s = Finite w"
    and "prevtime s = Finite t0"
    and "cos_integral s = Finite ic" "sin_integral s = Finite isn"
    and "cpu_dipole_m s ! 2 = Finite mu" "prevdipole s ! 2 = Finite mu"
  shows "cos_integral (uniform_steps t0 dt k s) = Finite (ic + trapezoid cos w (lam * mu) t0 dt k)
       \<and> sin_integral (uniform_steps t0 dt k s) = Finite (isn + trapezoid sin w (lam * mu) t0 dt k)
       \<and> prevtime (uniform_steps t0 dt k s) = Finite (t0 + real k * dt)
       \<and> coupling_strength (uniform_steps t0 dt k s) = Finite lam
       \<and> cavity_frequency (uniform_steps t0 dt k s) = Finite w
       \<and> cpu_dipole_m (uniform_steps t0 dt k s) = cpu_dipole_m s
       \<and> length (prevdipole (uniform_steps t0 dt k s)) = 3
       \<and> prevdipole (uniform_steps t0 dt k s) ! 2 = Finite mu"
proof (induction k)
  case 0
  show ?case using assms by (simp add: trapezoid_def)
next
  case (Suc k)
  let ?s = "uniform_steps t0 dt k s"
  let ?t = "Finite (t0 + real (Suc k) * dt)"
  from Suc have ih:
    "cos_integral ?s = Finite (ic + trapezoid cos w (lam * mu) t0 dt k)"
    "sin_integral ?s = Finite (isn + trapezoid sin w (lam * mu) t0 dt k)"
    "prevtime ?s = Finite (t0 + real k * dt)"
    "coupling_strength ?s = Finite lam"
    "cavity_frequency ?s = Finite w"
    "cpu_dipole_m ?s = cpu_dipole_m s"
    "length (prevdipole ?s) = 3"
    "prevdipole ?s ! 2 = Finite mu"
    by simp_all
  have c: "cos_integral (step_cavity ?t ?s) =
      Finite (ic + trapezoid cos w (lam * mu) t0 dt (Suc k))"
    unfolding step_cavity_cos ih assms(8)
    by (simp add: half_double trapezoid_def algebra_simps)
  have sn: "sin_integral (step_cavity ?t ?s) =
      Finite (isn + trapezoid sin w (lam * mu) t0 dt (Suc k))"
    unfolding step_cavity_sin ih assms(8)
    by (simp add: half_double trapezoid_def algebra_simps)
  have pd: "prevdipole (step_cavity ?t ?s) = cpu_dipole_m s"
    using ih assms(1) by (simp add: step_cavity_fields std_copy_same_length)
  show ?case
    using c sn pd ih assms(1,8) by (simp add: step_cavity_fields)
qed

text \<open>
  Claim C3. One call of \<open>step_cavity\<close> with time \<open>t\<close> adds
  \<open>0.5 (t - prevtime) [cos(\<omega> prevtime) \<lambda> \<mu>z(prevtime) + cos(\<omega> t) \<lambda> \<mu>z(t)]\<close> to
  \<open>cos_integral\<close> and the analogous sine increment to \<open>sin_integral\<close>, then sets
  \<open>prevtime\<close> to \<open>t\<close> and \<open>prevdipole\<close> to the current dipole. Consequently, for a
  constant coupling-dipole value \<open>\<lambda> \<mu>z\<close> and \<open>k\<close> uniform steps from finite values, the
  integrals have grown by the trapezoidal-rule sum.
\<close>

theorem step_cavity_trapezoid:
  assumes "length (cpu_dipole_m s) = 3" and "length (prevdipole s) = 3"
  shows "cos_integral (step_cavity t s) = cos_integral s + 0.5 * (t - prevtime s) *
           (cos_d (cavity_frequency s * prevtime s) * coupling_strength s * prevdipole s ! 2
            + cos_d (cavity_frequency s * t) * coupling_strength s * cpu_dipole_m s ! 2)
       \<and> sin_integral (step_cavity t s) = sin_integral s + 0.5 * (t - prevtime s) *
           (sin_d (cavity_frequency s * prevtime s) * coupling_strength s * prevdipole s ! 2
            + sin_d (cavity_frequency s * t) * coupling_strength s * cpu_dipole_m s ! 2)
       \<and> prevtime (step_cavity t s) = t
       \<and> prevdipole (step_cavity t s) = cpu_dipole_m s
       \<and> (coupling_strength s = Finite lam \<and> cavity_frequency s = Finite w
            \<and> prevtime s = Finite t0
            \<and> cos_integral s = Finite ic \<and> sin_integral s = Finite isn
            \<and> cpu_dipole_m s ! 2 = Finite mu \<and> prevdipole s ! 2 = Finite mu
          \<longrightarrow> cos_integral (uniform_steps t0 dt k s)
                = Finite (ic + trapezoid cos w (lam * mu) t0 dt k)
            \<and> sin_integral (uniform_steps t0 dt k s)
                = Finite (isn + trapezoid sin w (lam * mu) t0 dt k)
            \<and> prevtime (uniform_steps t0 dt k s) = Finite (t0 + real k * dt))"
proof -
  have "prevdipole (step_cavity t s) = cpu_dipole_m s"
    using assms by (simp add: step_cavity_fields std_copy_same_length)
  moreover have "coupling_strength s = Finite lam \<and> cavity_frequency s = Finite w
            \<and> prevtime s = Finite t0
            \<and> cos_integral s = Finite ic \<and> sin_integral s = Finite isn
            \<and> cpu_dipole_m s ! 2 = Finite mu \<and> prevdipole s ! 2 = Finite mu
          \<longrightarrow> cos_integral (uniform_steps t0 dt k s)
                = Finite (ic + trapezoid cos w (lam * mu) t0 dt k)
            \<and> sin_integral (uniform_steps t0 dt k s)
                = Finite (isn + trapezoid sin w (lam * mu) t0 dt k)
            \<and> prevtime (uniform_steps t0 dt k s) = Finite (t0 + real k * dt)"
    using uniform_steps_closed_form [OF assms, of lam w t0 ic isn mu dt k] by blast
  ultimately show ?thesis
    using step_cavity_cos [of t s] step_cavity_sin [of t s] step_cavity_fields(4) [of t s]
    by blast
qed

lemma trapezoid_2: "trapezoid f w c t0 dt 2 =
   0.5 * dt * (f (w * t0) + f (w * (t0 + dt))) * c + 0.5 * dt * (f (w * (t0 + dt)) + f (w * (t0 + 2 * dt))) * c"
  by (simp add: trapezoid_def numeral_2_eq_2)

theorem step_cavity_trapezoid_witness:
  "length (cpu_dipole_m example_cavity) = 3 \<and> length (prevdipole example_cavity) = 3
   \<and> cos_integral (step_cavity (Finite 1) example_cavity) = Finite (3 + 3 * cos 1)
   \<and> sin_integral (step_cavity (Finite 1) example_cavity) = Finite (3 * sin 1)
   \<and> prevdipole (step_cavity (Finite 1) example_cavity) = [Finite 1, Finite 2, Finite 3]
   \<and> cos_integral (uniform_steps 0 1 2 example_cavity)
       = Finite (3 * (1 + cos 1) + 3 * (cos 1 + cos 2))
   \<and> prevtime (uniform_steps 0 1 2 example_cavity) = Finite 2"
proof -
  have len: "length (cpu_dipole_m example_cavity) = 3" "length (prevdipole example_cavity) = 3"
    by (simp_all add: example_cavity_def)
  have val: "coupling_strength example_cavity = Finite 2"
    "cavity_frequency example_cavity = Finite 1"
    "prevtime example_cavity = Finite 0"
    "cos_integral example_cavity = Finite 0" "sin_integral example_cavity = Finite 0"
    "cpu_dipole_m example_cavity = [Finite 1, Finite 2, Finite 3]"
    "prevdipole example_cavity = [Finite 1, Finite 2, Finite 3]"
    by (simp_all add: example_cavity_def)
  show ?thesis
    using step_cavity_trapezoid [OF len, of "Finite 1" 2 1 0 0 0 3 1 2]
    by (simp add: val half_double trapezoid_2 add_divide_distrib)
qed

text \<open>
  Claim C4. For every state and time, \<open>canonical_position\<close> sets \<open>q\<close> to
  \<open>sin(\<omega> t) Icos - cos(\<omega> t) Isin + q0 cos(\<omega> t)\<close> and \<open>canonical_momentum\<close> sets
  \<open>p\<close> to \<open>\<omega> (cos(\<omega> t) Icos + sin(\<omega> t) Isin - q0 sin(\<omega> t))\<close>, and nothing else in
  the state changes; the phase is \<open>\<omega>\<close> times the absolute time \<open>t\<close>. For finite
  \<open>q0\<close>, \<open>Icos\<close>, \<open>Isin\<close>, \<open>\<omega>\<close> and \<open>t\<close> these are the real numbers of the formulas.
\<close>

theorem canonical_position_momentum:
  "canonical_position t s =
     s\<lparr>q := sin_d (cavity_frequency s * t) * cos_integral s
              - cos_d (cavity_frequency s * t) * sin_integral s
              + q0 s * cos_d (cavity_frequency s * t)\<rparr>
   \<and> canonical_momentum t s =
     s\<lparr>p := cavity_frequency s *
              (cos_d (cavity_frequency s * t) * cos_integral s
               + sin_d (cavity_frequency s * t) * sin_integral s
               - q0 s * sin_d (cavity_frequency s * t))\<rparr>
   \<and> (cavity_frequency s = Finite w \<and> cos_integral s = Finite ic
        \<and> sin_integral s = Finite isn \<and> q0 s = Finite x0
      \<longrightarrow> q (canonical_position (Finite u) s)
            = Finite (sin (w * u) * ic - cos (w * u) * isn + x0 * cos (w * u))
        \<and> p (canonical_momentum (Finite u) s)
            = Finite (w * (cos (w * u) * ic + sin (w * u) * isn - x0 * sin (w * u))))"
  by (simp add: canonical_position_def canonical_momentum_def Let_def)

theorem canonical_position_momentum_witness:
  "cavity_frequency example_cavity = Finite 1 \<and> cos_integral example_cavity = Finite 0
   \<and> sin_integral example_cavity = Finite 0 \<and> q0 example_cavity = Finite 6
   \<and> q (canonical_position (Finite 0) example_cavity) = Finite 6
   \<and> p (canonical_momentum (Finite 0) example_cavity) = Finite 0"
proof -
  have val: "cavity_frequency example_cavity = Finite 1" "cos_integral example_cavity = Finite 0"
    "sin_integral example_cavity = Finite 0" "q0 example_cavity = Finite 6"
    by (simp_all add: example_cavity_def)
  show ?thesis
    using val canonical_position_momentum [of "Finite 0" example_cavity 1 0 0 6 0]
    by simp
qed

section \<open>The reductions: claim C8\<close>

lemma fold_accumulate:
  "fold (\<lambda>a d. d + f a) [0..<n] z = z + (\<Sum>a<n. f a)" for z :: double
  by (induction n) (simp_all add: ac_simps)

lemma sequential_sum_eq: "sequential_sum N f = (\<Sum>a<N. f a)"
  by (simp add: sequential_sum_def fold_accumulate)

lemma fold_guarded:
  "fold (\<lambda>patch d. let atomIdx = tid + patch * 1024 in if atomIdx < N then d + f atomIdx else d)
      [0..<n] z
   = z + (\<Sum>patch<n. if tid + patch * 1024 < N then f (tid + patch * 1024) else 0)"
  for z :: double
  by (induction n) (simp_all add: Let_def ac_simps)

lemma strided_sum:
  "(\<Sum>tid<1024. \<Sum>patch<n. h (tid + patch * 1024)) = (\<Sum>a<n * 1024. h a)"
  for h :: "nat \<Rightarrow> double"
proof (induction n)
  case 0
  show ?case by simp
next
  case (Suc n)
  have split: "(\<Sum>tid<1024. \<Sum>patch<Suc n. h (tid + patch * 1024))
      = (\<Sum>tid<1024. \<Sum>patch<n. h (tid + patch * 1024)) + (\<Sum>tid<1024. h (tid + n * 1024))"
    by (simp add: sum.distrib)
  have shift: "(\<Sum>tid<1024. h (tid + n * 1024)) = (\<Sum>a = n * 1024..<n * 1024 + 1024. h a)"
    using sum.shift_bounds_nat_ivl [of h 0 "n * 1024" 1024]
    by (simp add: lessThan_atLeast0 add.commute)
  have concat: "(\<Sum>a<n * 1024. h a) + (\<Sum>a = n * 1024..<n * 1024 + 1024. h a)
      = (\<Sum>a<Suc n * 1024. h a)"
    using sum.atLeastLessThan_concat [of 0 "n * 1024" "n * 1024 + 1024" h]
    by (simp add: lessThan_atLeast0 add.commute)
  show ?case
    by (simp only: split shift Suc concat)
qed

lemma guarded_sum:
  fixes f :: "nat \<Rightarrow> double"
  assumes "N \<le> m"
  shows "(\<Sum>a<m. if a < N then f a else 0) = (\<Sum>a<N. f a)"
proof -
  have "(\<Sum>a<m. if a < N then f a else 0) = (\<Sum>a\<in>{..<m} \<inter> {a. a < N}. f a)"
    by (simp add: sum.inter_restrict)
  moreover have "{..<m} \<inter> {a. a < N} = {..<N}" using assms by auto
  ultimately show ?thesis by simp
qed

lemma patches_cover: "N \<le> ((N - 1) div 1024 + 1) * 1024" for N :: nat
proof -
  define d where "d = (N - 1) div 1024"
  define r where "r = (N - 1) mod 1024"
  have "r < 1024" by (simp add: r_def)
  moreover have "d * 1024 + r = N - 1" by (simp add: d_def r_def)
  ultimately have "N \<le> (d + 1) * 1024" by simp
  then show ?thesis by (simp only: d_def)
qed

lemma tree_step_length: "length (tree_step offset s_d) = length s_d"
  by (simp add: tree_step_def)

lemma tree_step_sum:
  assumes "2 * offset \<le> length s_d"
  shows "(\<Sum>i<offset. tree_step offset s_d ! i) = (\<Sum>i<2 * offset. s_d ! i)"
proof -
  have "(\<Sum>i<offset. tree_step offset s_d ! i) = (\<Sum>i<offset. s_d ! i + s_d ! (i + offset))"
    using assms by (intro sum.cong) (simp_all add: tree_step_def)
  also have "\<dots> = (\<Sum>i<offset. s_d ! i) + (\<Sum>i<offset. s_d ! (i + offset))"
    by (simp add: sum.distrib)
  also have "(\<Sum>i<offset. s_d ! (i + offset)) = (\<Sum>i = offset..<offset + offset. s_d ! i)"
    using sum.shift_bounds_nat_ivl [of "\<lambda>i. s_d ! i" 0 offset offset]
    by (simp add: lessThan_atLeast0)
  also have "(\<Sum>i<offset. s_d ! i) + (\<Sum>i = offset..<offset + offset. s_d ! i)
      = (\<Sum>i<2 * offset. s_d ! i)"
    using sum.atLeastLessThan_concat [of 0 offset "offset + offset" "\<lambda>i. s_d ! i"]
    by (simp add: lessThan_atLeast0 mult_2)
  finally show ?thesis .
qed

lemma aggregate_synced_unroll:
  "aggregate_synced (1024 div 2) s_d =
     tree_step 64 (tree_step 128 (tree_step 256 (tree_step 512 s_d)))"
  by (simp add: aggregate_synced.simps [of 512] aggregate_synced.simps [of 256]
      aggregate_synced.simps [of 128] aggregate_synced.simps [of 64]
      aggregate_synced.simps [of 32])

lemma aggregate_warp_unroll:
  "aggregate_warp 32 s_d =
     tree_step 1 (tree_step 2 (tree_step 4 (tree_step 8 (tree_step 16 (tree_step 32 s_d)))))"
  by (simp add: aggregate_warp.simps [of 32] aggregate_warp.simps [of 16]
      aggregate_warp.simps [of 8] aggregate_warp.simps [of 4]
      aggregate_warp.simps [of 2] aggregate_warp.simps [of 1] aggregate_warp.simps [of 0])

lemma aggregate_sum:
  assumes "length s_d = 1024"
  shows "aggregate s_d = (\<Sum>i<1024. s_d ! i)"
proof -
  define s1 where "s1 = tree_step 512 s_d"
  define s2 where "s2 = tree_step 256 s1"
  define s3 where "s3 = tree_step 128 s2"
  define s4 where "s4 = tree_step 64 s3"
  define s5 where "s5 = tree_step 32 s4"
  define s6 where "s6 = tree_step 16 s5"
  define s7 where "s7 = tree_step 8 s6"
  define s8 where "s8 = tree_step 4 s7"
  define s9 where "s9 = tree_step 2 s8"
  define s10 where "s10 = tree_step 1 s9"
  note defs = s1_def s2_def s3_def s4_def s5_def s6_def s7_def s8_def s9_def s10_def
  have len: "length s1 = 1024" "length s2 = 1024" "length s3 = 1024" "length s4 = 1024"
    "length s5 = 1024" "length s6 = 1024" "length s7 = 1024" "length s8 = 1024"
    "length s9 = 1024"
    using assms by (simp_all add: defs tree_step_length)
  have "aggregate s_d = s10 ! 0"
    by (simp only: aggregate_def aggregate_synced_unroll aggregate_warp_unroll defs)
  also have "\<dots> = (\<Sum>i<1. s10 ! i)" by simp
  also have "\<dots> = (\<Sum>i<2. s9 ! i)"
    unfolding s10_def using tree_step_sum [of 1 s9] len by simp
  also have "\<dots> = (\<Sum>i<4. s8 ! i)"
    unfolding s9_def using tree_step_sum [of 2 s8] len by simp
  also have "\<dots> = (\<Sum>i<8. s7 ! i)"
    unfolding s8_def using tree_step_sum [of 4 s7] len by simp
  also have "\<dots> = (\<Sum>i<16. s6 ! i)"
    unfolding s7_def using tree_step_sum [of 8 s6] len by simp
  also have "\<dots> = (\<Sum>i<32. s5 ! i)"
    unfolding s6_def using tree_step_sum [of 16 s5] len by simp
  also have "\<dots> = (\<Sum>i<64. s4 ! i)"
    unfolding s5_def using tree_step_sum [of 32 s4] len by simp
  also have "\<dots> = (\<Sum>i<128. s3 ! i)"
    unfolding s4_def using tree_step_sum [of 64 s3] len by simp
  also have "\<dots> = (\<Sum>i<256. s2 ! i)"
    unfolding s3_def using tree_step_sum [of 128 s2] len by simp
  also have "\<dots> = (\<Sum>i<512. s1 ! i)"
    unfolding s2_def using tree_step_sum [of 256 s1] len by simp
  also have "\<dots> = (\<Sum>i<1024. s_d ! i)"
    unfolding s1_def using tree_step_sum [of 512 s_d] assms by simp
  finally show ?thesis .
qed

lemma two_phase_sum:
  "aggregate (map (\<lambda>tid. fold (\<lambda>patch d. let atomIdx = tid + patch * 1024
                                    in if atomIdx < N then d + f atomIdx else d)
                           [0..<(N - 1) div 1024 + 1] 0) [0..<1024])
   = (\<Sum>a<N. f a)"
proof -
  let ?P = "(N - 1) div 1024 + 1"
  let ?h = "\<lambda>a. if a < N then f a else 0"
  let ?s = "map (\<lambda>tid. fold (\<lambda>patch d. let atomIdx = tid + patch * 1024
                                    in if atomIdx < N then d + f atomIdx else d)
                           [0..<?P] 0) [0..<1024]"
  have "aggregate ?s = (\<Sum>i<1024. ?s ! i)"
    by (rule aggregate_sum) simp
  also have "\<dots> = (\<Sum>tid<1024. \<Sum>patch<?P. ?h (tid + patch * 1024))"
    by (intro sum.cong) (simp_all add: fold_guarded)
  also have "\<dots> = (\<Sum>a<?P * 1024. ?h a)"
    by (rule strided_sum)
  also have "\<dots> = (\<Sum>a<N. f a)"
    by (rule guarded_sum) (rule patches_cover)
  finally show ?thesis .
qed

lemma sum_dipole_block:
  "aggregate (map (sum_dipole_thread N ((N - 1) div 1024 + 1) g bid) [0..<1024])
   = sequential_sum N (\<lambda>atomIdx. g ! (bid * N + atomIdx))"
  using two_phase_sum [of N "\<lambda>a. g ! (bid * N + a)"]
  by (simp add: sum_dipole_thread_def [abs_def] sequential_sum_eq Let_def)

lemma get_center_of_mass_block:
  "aggregate (map (get_center_of_mass_thread N ((N - 1) div 1024 + 1) m g bid) [0..<1024])
   = sequential_sum N (\<lambda>atomIdx. m ! atomIdx * g ! (bid * N + atomIdx))"
  using two_phase_sum [of N "\<lambda>a. m ! a * g ! (bid * N + a)"]
  by (simp add: get_center_of_mass_thread_def [abs_def] sequential_sum_eq Let_def)

lemma upt_3: "[0..<3] = [0, 1, 2]"
  by (simp add: numeral_3_eq_3)

text \<open>
  Claim C8. For every atom count \<open>N\<close> and all per-atom values, the two-phase reduction
  of \<open>sum_dipole\<close> and of \<open>get_center_of_mass\<close>, launched with the patch count
  \<open>(N - 1) / 1024 + 1\<close> that the host code passes, stores for each of the three
  components exactly the sequential left-to-right sum of the same values (divided by the
  total mass in \<open>get_center_of_mass\<close>), in the exact arithmetic of the embedding.
\<close>

theorem reduction_equals_sequential_sum:
  "sum_dipole N ((N - 1) div 1024 + 1) g_virial_per_atom g_dipole
     = g_dipole[0 := sequential_sum N (\<lambda>atomIdx. g_virial_per_atom ! (0 * N + atomIdx)),
                1 := sequential_sum N (\<lambda>atomIdx. g_virial_per_atom ! (1 * N + atomIdx)),
                2 := sequential_sum N (\<lambda>atomIdx. g_virial_per_atom ! (2 * N + atomIdx))]
   \<and> get_center_of_mass N ((N - 1) div 1024 + 1) total_mass g_mass g_position g_com
     = g_com[0 := sequential_sum N (\<lambda>atomIdx. g_mass ! atomIdx * g_position ! (0 * N + atomIdx))
                    / total_mass,
             1 := sequential_sum N (\<lambda>atomIdx. g_mass ! atomIdx * g_position ! (1 * N + atomIdx))
                    / total_mass,
             2 := sequential_sum N (\<lambda>atomIdx. g_mass ! atomIdx * g_position ! (2 * N + atomIdx))
                    / total_mass]"
  by (simp only: sum_dipole_def get_center_of_mass_def upt_3 fold.simps o_apply id_apply
      sum_dipole_block get_center_of_mass_block simp_thms)

section \<open>The force on the atoms: claim C6\<close>

lemma stride_index:
  fixes n N idx :: nat
  assumes "n < N"
  shows "(idx < 3 * N \<and> idx mod N = n) \<longleftrightarrow> (idx = n \<or> idx = n + N \<or> idx = n + 2 * N)"
proof
  assume a: "idx < 3 * N \<and> idx mod N = n"
  then have "idx div N < 3" using assms by (simp add: less_mult_imp_div_less mult.commute)
  then consider "idx div N = 0" | "idx div N = 1" | "idx div N = 2" by linarith
  then show "idx = n \<or> idx = n + N \<or> idx = n + 2 * N"
  proof cases
    case 1 then show ?thesis using a div_mult_mod_eq [of idx N] by simp
  next
    case 2 then show ?thesis using a div_mult_mod_eq [of idx N] by simp
  next
    case 3 then show ?thesis using a div_mult_mod_eq [of idx N] by simp
  qed
next
  assume "idx = n \<or> idx = n + N \<or> idx = n + 2 * N"
  then show "idx < 3 * N \<and> idx mod N = n" using assms by auto
qed

lemma strided_kernel:
  fixes K :: "nat \<Rightarrow> 'a list \<Rightarrow> 'a list"
  assumes len: "\<And>n g. length (K n g) = length g"
    and act: "\<And>n g idx. n < m \<Longrightarrow> idx < length g \<Longrightarrow>
        K n g ! idx = (if n < N \<and> idx < 3 * N \<and> idx mod N = n then upd idx (g ! idx) else g ! idx)"
    and idx: "idx < length g"
  shows "length (fold K [0..<m] g) = length g
       \<and> fold K [0..<m] g ! idx
           = (if idx < 3 * N \<and> idx mod N < m then upd idx (g ! idx) else g ! idx)"
  using act
proof (induction m)
  case 0
  show ?case by simp
next
  case (Suc m)
  have ih: "length (fold K [0..<m] g) = length g"
    "fold K [0..<m] g ! idx = (if idx < 3 * N \<and> idx mod N < m then upd idx (g ! idx) else g ! idx)"
    using Suc.IH Suc.prems by simp_all
  have "fold K [0..<Suc m] g = K m (fold K [0..<m] g)" by simp
  moreover have "K m (fold K [0..<m] g) ! idx =
      (if m < N \<and> idx < 3 * N \<and> idx mod N = m then upd idx (fold K [0..<m] g ! idx)
       else fold K [0..<m] g ! idx)"
    using Suc.prems [of m idx "fold K [0..<m] g"] ih idx by simp
  moreover have "idx < 3 * N \<Longrightarrow> idx mod N = m \<Longrightarrow> m < N"
    by (metis mod_less_divisor mult_0_right not_less_zero zero_less_iff_neq_zero)
  ultimately show ?case
    using ih len by (auto simp: less_Suc_eq)
qed

lemma launch_strided:
  fixes K :: "nat \<Rightarrow> 'a list \<Rightarrow> 'a list"
  assumes len: "\<And>n g. length (K n g) = length g"
    and act: "\<And>n g idx. idx < length g \<Longrightarrow>
        K n g ! idx = (if n < N \<and> idx < 3 * N \<and> idx mod N = n then upd idx (g ! idx) else g ! idx)"
    and idx: "idx < length g"
  shows "length (launch ((N - 1) div 128 + 1) 128 K g) = length g
       \<and> launch ((N - 1) div 128 + 1) 128 K g ! idx
           = (if idx < 3 * N then upd idx (g ! idx) else g ! idx)"
proof -
  let ?m = "((N - 1) div 128 + 1) * 128"
  define d where "d = (N - 1) div 128"
  define r where "r = (N - 1) mod 128"
  have "r < 128" by (simp add: r_def)
  moreover have "d * 128 + r = N - 1" by (simp add: d_def r_def)
  ultimately have "N \<le> (d + 1) * 128" by simp
  then have cover: "N \<le> ?m" by (simp only: d_def)
  have "idx < 3 * N \<Longrightarrow> idx mod N < ?m"
  proof -
    assume "idx < 3 * N"
    then have "0 < N" by simp
    then have "idx mod N < N" by simp
    then show ?thesis using cover by linarith
  qed
  then show ?thesis
    using strided_kernel [of K ?m N upd idx g, OF len act idx]
    by (auto simp: launch_def)
qed

lemma apply_cavity_force_length: "length (apply_cavity_force N cav n g) = length g"
  by (simp add: apply_cavity_force_def Let_def)

lemma apply_cavity_force_nth:
  assumes "idx < length g"
  shows "apply_cavity_force N cav n g ! idx =
     (if n < N \<and> idx < 3 * N \<and> idx mod N = n then g ! idx + cav ! idx else g ! idx)"
proof (cases "n < N")
  case False
  then show ?thesis by (simp add: apply_cavity_force_def)
next
  case True
  show ?thesis
    unfolding stride_index [OF True]
    using True assms by (auto simp: apply_cavity_force_def Let_def nth_list_update)
qed

lemma launch_apply_cavity_force:
  assumes "idx < length g"
  shows "length (launch ((N - 1) div 128 + 1) 128 (apply_cavity_force N cav) g) = length g
       \<and> launch ((N - 1) div 128 + 1) 128 (apply_cavity_force N cav) g ! idx
           = (if idx < 3 * N then g ! idx + cav ! idx else g ! idx)"
  using launch_strided [of "apply_cavity_force N cav" N "\<lambda>i v. v + cav ! i" idx g,
      OF apply_cavity_force_length apply_cavity_force_nth assms]
  by simp


lemma fold_update_length: "length (fold (\<lambda>i f. f[i := v i]) xs f) = length f"
  by (induction xs arbitrary: f) simp_all

lemma cavity_force_fields:
  "enabled_m (cavity_force s) = enabled_m s"
  "number_of_atoms_m (cavity_force s) = number_of_atoms_m s"
  "gpu_cavity_force_m (cavity_force s) = gpu_cavity_force_m s"
  "length (cpu_cavity_force_m (cavity_force s)) = length (cpu_cavity_force_m s)"
proof -
  let ?N = "number_of_atoms_m s"
  let ?K = "\<lambda>j f. f[j + 0 * ?N := (cavity_frequency s * q s - coupling_strength s * cpu_dipole_m s ! 2)
                          * coupling_strength s * cpu_dipole_jacobian_m s ! (0 * 3 + j * 9 + 2),
                     j + 1 * ?N := (cavity_frequency s * q s - coupling_strength s * cpu_dipole_m s ! 2)
                          * coupling_strength s * cpu_dipole_jacobian_m s ! (1 * 3 + j * 9 + 2),
                     j + 2 * ?N := (cavity_frequency s * q s - coupling_strength s * cpu_dipole_m s ! 2)
                          * coupling_strength s * cpu_dipole_jacobian_m s ! (2 * 3 + j * 9 + 2)]"
  have "length (fold ?K xs f) = length f" for xs f
    by (induction xs arbitrary: f) simp_all
  then show "length (cpu_cavity_force_m (cavity_force s)) = length (cpu_cavity_force_m s)"
    by (simp add: cavity_force_def Let_def fold_update_length)
qed (simp_all add: cavity_force_def Let_def)

lemma cavity_force_nth:
  assumes len: "3 * number_of_atoms_m s \<le> length (cpu_cavity_force_m s)"
    and i: "i < number_of_atoms_m s" and j: "j < 3"
  shows "cpu_cavity_force_m (cavity_force s) ! (i + j * number_of_atoms_m s)
       = (cavity_frequency s * q s - coupling_strength s * cpu_dipole_m s ! 2)
           * coupling_strength s * cpu_dipole_jacobian_m s ! (i * 9 + j * 3 + 2)"
proof -
  let ?N = "number_of_atoms_m s"
  let ?c = "cavity_frequency s * q s - coupling_strength s * cpu_dipole_m s ! 2"
  let ?v = "\<lambda>a n. ?c * coupling_strength s * cpu_dipole_jacobian_m s ! (a * 3 + n * 9 + 2)"
  let ?K = "\<lambda>n f. f[n + 0 * ?N := ?v 0 n, n + 1 * ?N := ?v 1 n, n + 2 * ?N := ?v 2 n]"
  let ?f0 = "fold (\<lambda>i f. f[i := 0]) [0..<3 * ?N] (cpu_cavity_force_m s)"
  let ?upd = "\<lambda>idx (old :: double). ?v (idx div ?N) (idx mod ?N)"
  let ?idx = "i + j * ?N"
  have f0: "length ?f0 = length (cpu_cavity_force_m s)"
    by (rule fold_update_length)
  have idx: "?idx < 3 * ?N"
  proof -
    have "j \<le> 2" using j by simp
    then have "j * ?N \<le> 2 * ?N" by (rule mult_le_mono1)
    then show ?thesis using i by linarith
  qed
  then have in_range: "?idx < length ?f0" using len f0 by simp
  have K_len: "length (?K n g) = length g" for n g by simp
  have K_act: "?K n g ! idx = (if n < ?N \<and> idx < 3 * ?N \<and> idx mod ?N = n
                               then ?upd idx (g ! idx) else g ! idx)"
    if "n < ?N" "idx < length g" for n g idx
    unfolding stride_index [OF that(1)]
    using that by (auto simp: nth_list_update)
  have "fold ?K [0..<?N] ?f0 ! ?idx = ?upd ?idx (?f0 ! ?idx)"
    using strided_kernel [of ?K ?N ?N ?upd ?idx ?f0, OF K_len K_act in_range] idx i
    by simp
  moreover have "?idx div ?N = j" "?idx mod ?N = i" using i by simp_all
  ultimately have "fold ?K [0..<?N] ?f0 ! ?idx = ?v j i" by simp
  then show ?thesis
    by (simp add: cavity_force_def Let_def add.commute)
qed


lemma launch_length:
  assumes "\<And>n g. length (K n g) = length g"
  shows "length (launch blocks threads K g) = length g"
proof -
  have "length (fold K xs g) = length g" for xs
    by (induction xs arbitrary: g) (simp_all add: assms)
  then show ?thesis by (simp add: launch_def)
qed

lemma copy_from_host_same_length: "length host = length gpu \<Longrightarrow> copy_from_host gpu host = host"
  by (simp add: copy_from_host_def)

text \<open>
  Claim C6. For every atom \<open>i\<close> and axis \<open>j\<close> the cavity force is
  \<open>(\<omega> q - \<lambda> \<mu>z) \<lambda> gradient[i, j, z]\<close>, the entry \<open>i * 9 + j * 3 + 2\<close> of the Jacobian, and
  \<open>compute_and_apply_cavity_force\<close> adds it to the entry \<open>i + j N\<close> of the outer force
  buffer; the buffer keeps its length, its entries beyond \<open>3 N\<close> and the other fields of
  the outer \<open>Atom\<close> are unchanged.
\<close>

theorem cavity_force_applied:
  assumes "enabled_m s"
    and "length (cpu_cavity_force_m s) = 3 * number_of_atoms_m s"
    and "length (gpu_cavity_force_m s) = 3 * number_of_atoms_m s"
    and "3 * number_of_atoms_m s \<le> length (force_per_atom atom)"
    and "i < number_of_atoms_m s" and "j < 3"
  shows "cpu_cavity_force_m (fst (compute_and_apply_cavity_force atom s))
             ! (i + j * number_of_atoms_m s)
           = (cavity_frequency s * q s - coupling_strength s * cpu_dipole_m s ! 2)
               * coupling_strength s * cpu_dipole_jacobian_m s ! (i * 9 + j * 3 + 2)
       \<and> force_per_atom (snd (compute_and_apply_cavity_force atom s))
             ! (i + j * number_of_atoms_m s)
           = force_per_atom atom ! (i + j * number_of_atoms_m s)
             + cpu_cavity_force_m (fst (compute_and_apply_cavity_force atom s))
                 ! (i + j * number_of_atoms_m s)
       \<and> length (force_per_atom (snd (compute_and_apply_cavity_force atom s)))
           = length (force_per_atom atom)
       \<and> (\<forall>idx. 3 * number_of_atoms_m s \<le> idx \<and> idx < length (force_per_atom atom)
            \<longrightarrow> force_per_atom (snd (compute_and_apply_cavity_force atom s)) ! idx
                = force_per_atom atom ! idx)
       \<and> snd (compute_and_apply_cavity_force atom s)
           = atom\<lparr>force_per_atom :=
                   force_per_atom (snd (compute_and_apply_cavity_force atom s))\<rparr>"
proof -
  let ?N = "number_of_atoms_m s"
  let ?c = "cavity_force s"
  let ?F = "launch ((?N - 1) div 128 + 1) 128 (apply_cavity_force ?N (cpu_cavity_force_m ?c))
              (force_per_atom atom)"
  let ?idx = "i + j * ?N"
  have gpu: "copy_from_host (gpu_cavity_force_m ?c) (cpu_cavity_force_m ?c) = cpu_cavity_force_m ?c"
    using assms(2,3) by (simp add: copy_from_host_same_length cavity_force_fields)
  have res: "compute_and_apply_cavity_force atom s
      = (?c\<lparr>gpu_cavity_force_m := cpu_cavity_force_m ?c\<rparr>, atom\<lparr>force_per_atom := ?F\<rparr>)"
    using assms(1) gpu
    by (simp add: compute_and_apply_cavity_force_def Let_def cavity_force_fields)
  have idx: "?idx < 3 * ?N"
  proof -
    have "j \<le> 2" using assms(6) by simp
    then have "j * ?N \<le> 2 * ?N" by (rule mult_le_mono1)
    then show ?thesis using assms(5) by linarith
  qed
  have force: "cpu_cavity_force_m ?c ! ?idx
      = (cavity_frequency s * q s - coupling_strength s * cpu_dipole_m s ! 2)
          * coupling_strength s * cpu_dipole_jacobian_m s ! (i * 9 + j * 3 + 2)"
    using assms(2,5,6) by (intro cavity_force_nth) simp_all
  have applied: "?F ! ?idx = force_per_atom atom ! ?idx + cpu_cavity_force_m ?c ! ?idx"
    using launch_apply_cavity_force [of ?idx "force_per_atom atom" ?N "cpu_cavity_force_m ?c"]
      idx assms(4) by simp
  have rest: "?F ! idx = force_per_atom atom ! idx"
    if "3 * ?N \<le> idx" "idx < length (force_per_atom atom)" for idx
    using launch_apply_cavity_force [of idx "force_per_atom atom" ?N "cpu_cavity_force_m ?c"]
      that by simp
  have len: "length ?F = length (force_per_atom atom)"
    by (rule launch_length) (rule apply_cavity_force_length)
  show ?thesis
    unfolding res using force applied rest len by simp
qed

theorem cavity_force_applied_witness:
  "enabled_m example_cavity
   \<and> length (cpu_cavity_force_m example_cavity) = 3 * number_of_atoms_m example_cavity
   \<and> length (gpu_cavity_force_m example_cavity) = 3 * number_of_atoms_m example_cavity
   \<and> 3 * number_of_atoms_m example_cavity \<le> length (force_per_atom example_atom)
   \<and> (1::nat) < number_of_atoms_m example_cavity \<and> (2::nat) < 3
   \<and> cpu_cavity_force_m (fst (compute_and_apply_cavity_force example_atom example_cavity)) ! 5
       = Finite 34
   \<and> force_per_atom (snd (compute_and_apply_cavity_force example_atom example_cavity)) ! 5
       = Finite 94"
proof -
  have h: "enabled_m example_cavity"
    "length (cpu_cavity_force_m example_cavity) = 3 * number_of_atoms_m example_cavity"
    "length (gpu_cavity_force_m example_cavity) = 3 * number_of_atoms_m example_cavity"
    "3 * number_of_atoms_m example_cavity \<le> length (force_per_atom example_atom)"
    "1 < number_of_atoms_m example_cavity" "(2::nat) < 3"
    by (simp_all add: example_cavity_def example_atom_def)
  have val: "number_of_atoms_m example_cavity = 2"
    "cavity_frequency example_cavity = Finite 1" "q example_cavity = Finite 7"
    "coupling_strength example_cavity = Finite 2"
    "cpu_dipole_m example_cavity ! 2 = Finite 3"
    "cpu_dipole_jacobian_m example_cavity ! 17 = Finite 17"
    "force_per_atom example_atom ! 5 = Finite 60"
    by (simp_all add: example_cavity_def example_atom_def)
  show ?thesis
    using h cavity_force_applied [OF h] by (simp add: val)
qed

section \<open>Dipole evaluation and initialization\<close>

lemma get_dipole_jacobian_frame:
  "enabled_m (get_dipole_jacobian pj h c s) = enabled_m s"
  "number_of_atoms_m (get_dipole_jacobian pj h c s) = number_of_atoms_m s"
  "coupling_strength (get_dipole_jacobian pj h c s) = coupling_strength s"
  "cavity_frequency (get_dipole_jacobian pj h c s) = cavity_frequency s"
  "charge (get_dipole_jacobian pj h c s) = charge s"
  "mass_m (get_dipole_jacobian pj h c s) = mass_m s"
  "masses_m (get_dipole_jacobian pj h c s) = masses_m s"
  "prevdipole (get_dipole_jacobian pj h c s) = prevdipole s"
  "cpu_dipole_m (get_dipole_jacobian pj h c s) = cpu_dipole_m s"
  "gpu_dipole_m (get_dipole_jacobian pj h c s) = gpu_dipole_m s"
  "mass (atom_copy (get_dipole_jacobian pj h c s)) = mass (atom_copy s)"
  "position_per_atom (atom_copy (get_dipole_jacobian pj h c s)) = position_per_atom (atom_copy s)"
  "virial_per_atom (atom_copy (get_dipole_jacobian pj h c s)) = virial_per_atom (atom_copy s)"
  by (simp_all add: get_dipole_jacobian_def Let_def case_prod_beta)

lemma get_dipole_frame:
  "enabled_m (get_dipole pot s) = enabled_m s"
  "number_of_atoms_m (get_dipole pot s) = number_of_atoms_m s"
  "coupling_strength (get_dipole pot s) = coupling_strength s"
  "cavity_frequency (get_dipole pot s) = cavity_frequency s"
  "charge (get_dipole pot s) = charge s"
  "mass_m (get_dipole pot s) = mass_m s"
  "masses_m (get_dipole pot s) = masses_m s"
  "prevdipole (get_dipole pot s) = prevdipole s"
  "cpu_dipole_m (get_dipole pot s) = (cpu_dipole_m s)[0 := 0, 1 := 0, 2 := 0]"
  "mass (atom_copy (get_dipole pot s)) = mass (atom_copy s)"
  "position_per_atom (atom_copy (get_dipole pot s)) = position_per_atom (atom_copy s)"
  "atom_cavity (get_dipole pot s) = atom_cavity s"
  by (simp_all add: get_dipole_def Let_def case_prod_beta)

lemma get_dipole_gpu:
  "gpu_dipole_m (get_dipole pot s) =
     sum_dipole (number_of_atoms_m s) ((number_of_atoms_m s - 1) div 1024 + 1)
       (virial_per_atom (atom_copy (get_dipole pot s)))
       (copy_from_host (gpu_dipole_m s) ((cpu_dipole_m s)[0 := 0, 1 := 0, 2 := 0]))"
  by (simp add: get_dipole_def Let_def case_prod_beta)

lemma get_dipole_virial:
  "\<exists>zeroed. virial_per_atom (atom_copy (get_dipole pot s))
      = snd (snd (pot (atom_type (atom_copy s)) (position_per_atom (atom_copy s)) zeroed))"
  by (simp add: get_dipole_def Let_def case_prod_beta) blast


lemma list3_update: "length xs = 3 \<Longrightarrow> xs[0 := a, 1 := b, 2 := c] = [a, b, c]"
  by (cases xs; cases "tl xs"; cases "tl (tl xs)") auto

lemma sum_dipole_result:
  "sum_dipole N ((N - 1) div 1024 + 1) g_virial_per_atom g_dipole
     = g_dipole[0 := sequential_sum N (\<lambda>atomIdx. g_virial_per_atom ! (0 * N + atomIdx)),
                1 := sequential_sum N (\<lambda>atomIdx. g_virial_per_atom ! (1 * N + atomIdx)),
                2 := sequential_sum N (\<lambda>atomIdx. g_virial_per_atom ! (2 * N + atomIdx))]"
  by (simp only: sum_dipole_def upt_3 fold.simps o_apply id_apply sum_dipole_block)

lemma get_center_of_mass_result:
  "get_center_of_mass N ((N - 1) div 1024 + 1) total_mass g_mass g_position g_com
     = g_com[0 := sequential_sum N (\<lambda>atomIdx. g_mass ! atomIdx * g_position ! (0 * N + atomIdx))
                    / total_mass,
             1 := sequential_sum N (\<lambda>atomIdx. g_mass ! atomIdx * g_position ! (1 * N + atomIdx))
                    / total_mass,
             2 := sequential_sum N (\<lambda>atomIdx. g_mass ! atomIdx * g_position ! (2 * N + atomIdx))
                    / total_mass]"
  by (simp only: get_center_of_mass_def upt_3 fold.simps o_apply id_apply
      get_center_of_mass_block)

lemma copy_to_host_same_length: "length host = length gpu \<Longrightarrow> copy_to_host gpu host = gpu"
  by (simp add: copy_to_host_def std_copy_def)

lemma map_upt_3: "map f [0..<3] = [f 0, f 1, f 2]"
  by (simp add: upt_3)

lemma cavity_get_center_of_mass_value:
  "copy_to_host (cavity_get_center_of_mass s (gpu_resize 3 [])) (replicate 3 0)
     = map (\<lambda>c. (\<Sum>a<number_of_atoms_m s.
                    mass (atom_copy s) ! a
                      * position_per_atom (atom_copy s) ! (c * number_of_atoms_m s + a))
                 / mass_m s) [0..<3]"
proof -
  let ?N = "number_of_atoms_m s"
  define C where "C = (\<lambda>c. (\<Sum>a<?N. mass (atom_copy s) ! a
                      * position_per_atom (atom_copy s) ! (c * ?N + a)) / mass_m s)"
  have len: "length (gpu_resize 3 [] :: double list) = 3" by (simp add: gpu_resize_def)
  have "cavity_get_center_of_mass s (gpu_resize 3 [])
      = (gpu_resize 3 [])[0 := C 0, 1 := C 1, 2 := C 2]"
    by (simp only: cavity_get_center_of_mass_def Let_def get_center_of_mass_result
        sequential_sum_eq C_def)
  also have "\<dots> = [C 0, C 1, C 2]"
    by (rule list3_update) (rule len)
  finally have "copy_to_host (cavity_get_center_of_mass s (gpu_resize 3 [])) (replicate 3 0)
      = [C 0, C 1, C 2]"
    by (simp add: copy_to_host_same_length)
  then show ?thesis
    by (simp only: map_upt_3 C_def)
qed

lemma compute_dipole_value:
  assumes en: "enabled_m s"
    and gpu: "length (gpu_dipole_m s) = 3" and cpu: "length (cpu_dipole_m s) = 3"
  shows "cpu_dipole_m (compute_dipole_and_jacobian pot pj step atom s)
     = map (corrected_dipole (number_of_atoms_m s)
              (virial_per_atom (atom_copy (compute_dipole_and_jacobian pot pj step atom s)))
              (mass (atom_copy s))
              (position_per_atom (atom_copy (compute_dipole_and_jacobian pot pj step atom s)))
              (mass_m s) (charge s)) [0..<3]"
proof -
  let ?N = "number_of_atoms_m s"
  define s1 where "s1 = s\<lparr>atom_copy := (atom_copy s)\<lparr>position_per_atom :=
      launch ((?N - 1) div 128 + 1) 128 (copy_positions ?N (position_per_atom atom))
        (position_per_atom (atom_copy s))\<rparr>\<rparr>"
  define s2 where "s2 = get_dipole pot s1"
  define s3 where "s3 = s2\<lparr>cpu_dipole_m := copy_to_host (gpu_dipole_m s2) (cpu_dipole_m s2)\<rparr>"
  define com where "com = copy_to_host (cavity_get_center_of_mass s3 (gpu_resize 3 [])) (replicate 3 0)"
  define body where "body = (\<lambda>i (s :: cavity).
      let s = s\<lparr>cpu_dipole_m := (cpu_dipole_m s)[i := cpu_dipole_m s ! i * BOHR_IN_ANGSTROM]\<rparr>
      in s\<lparr>cpu_dipole_m := (cpu_dipole_m s)[i := cpu_dipole_m s ! i
                                  + double_of_int (charge s) * com ! i]\<rparr>)"
  define s4 where "s4 = fold body [0..<3] s3"
  define r where "r = get_dipole_jacobian pj 0.001 (double_of_int (charge s4)) s4"
  have r: "compute_dipole_and_jacobian pot pj step atom s = r"
    using en
    by (simp add: compute_dipole_and_jacobian_def Let_def r_def s4_def body_def com_def
        s3_def s2_def s1_def)
  have s1: "number_of_atoms_m s1 = ?N" "gpu_dipole_m s1 = gpu_dipole_m s"
    "cpu_dipole_m s1 = cpu_dipole_m s" "mass (atom_copy s1) = mass (atom_copy s)"
    "mass_m s1 = mass_m s" "charge s1 = charge s"
    by (simp_all add: s1_def)
  define V where "V = virial_per_atom (atom_copy s2)"
  define P where "P = position_per_atom (atom_copy s2)"
  define S where "S = (\<lambda>c. \<Sum>a<?N. V ! (c * ?N + a))"
  define C where "C = (\<lambda>c. (\<Sum>a<?N. mass (atom_copy s) ! a * P ! (c * ?N + a)) / mass_m s)"
  let ?Z = "(cpu_dipole_m s)[0 := 0, 1 := 0, 2 := 0]"
  have zero3: "length ?Z = 3" using cpu by simp
  have g0: "copy_from_host (gpu_dipole_m s) ?Z = ?Z"
    using gpu zero3 by (simp add: copy_from_host_same_length)
  have "gpu_dipole_m s2 = sum_dipole ?N ((?N - 1) div 1024 + 1) V ?Z"
    by (simp only: s2_def get_dipole_gpu s1 g0 V_def)
  also have "\<dots> = ?Z[0 := S 0, 1 := S 1, 2 := S 2]"
    by (simp only: sum_dipole_result sequential_sum_eq S_def)
  also have "\<dots> = [S 0, S 1, S 2]"
    by (rule list3_update) (rule zero3)
  finally have g2: "gpu_dipole_m s2 = [S 0, S 1, S 2]" .
  have c2: "cpu_dipole_m s2 = ?Z"
    by (simp only: s2_def get_dipole_frame s1)
  have c3: "cpu_dipole_m s3 = [S 0, S 1, S 2]"
    using zero3 by (simp add: s3_def g2 c2 copy_to_host_same_length)
  have s3: "number_of_atoms_m s3 = ?N" "mass (atom_copy s3) = mass (atom_copy s)"
    "position_per_atom (atom_copy s3) = P" "virial_per_atom (atom_copy s3) = V"
    "mass_m s3 = mass_m s" "charge s3 = charge s"
    by (simp_all add: s3_def s2_def get_dipole_frame s1 P_def V_def)
  have com: "com = [C 0, C 1, C 2]"
    by (simp only: com_def cavity_get_center_of_mass_value s3 map_upt_3 C_def)
  have s4: "cpu_dipole_m s4 = [S 0 * BOHR_IN_ANGSTROM + double_of_int (charge s) * C 0,
                               S 1 * BOHR_IN_ANGSTROM + double_of_int (charge s) * C 1,
                               S 2 * BOHR_IN_ANGSTROM + double_of_int (charge s) * C 2]"
    "charge s4 = charge s" "atom_copy s4 = atom_copy s3"
    by (simp_all add: s4_def body_def upt_3 Let_def c3 com s3)
  have "cpu_dipole_m r = cpu_dipole_m s4"
    "virial_per_atom (atom_copy r) = V" "position_per_atom (atom_copy r) = P"
    by (simp_all add: r_def get_dipole_jacobian_frame s4 s3)
  then show ?thesis
    unfolding r
    by (simp only: s4 map_upt_3 corrected_dipole_def S_def C_def)
qed


lemma compute_dipole_frame:
  "enabled_m (compute_dipole_and_jacobian pot pj step atom s) = enabled_m s"
  "number_of_atoms_m (compute_dipole_and_jacobian pot pj step atom s) = number_of_atoms_m s"
  "coupling_strength (compute_dipole_and_jacobian pot pj step atom s) = coupling_strength s"
  "cavity_frequency (compute_dipole_and_jacobian pot pj step atom s) = cavity_frequency s"
  "charge (compute_dipole_and_jacobian pot pj step atom s) = charge s"
  "mass_m (compute_dipole_and_jacobian pot pj step atom s) = mass_m s"
  "prevdipole (compute_dipole_and_jacobian pot pj step atom s) = prevdipole s"
  "mass (atom_copy (compute_dipole_and_jacobian pot pj step atom s)) = mass (atom_copy s)"
  by (simp_all add: compute_dipole_and_jacobian_def Let_def upt_3 get_dipole_jacobian_frame
      get_dipole_frame)

lemma mass_loop:
  "fold (\<lambda>i (s :: cavity).
           s\<lparr>masses_m := (masses_m s)[i := cpu_mass atom ! i],
             mass_m := mass_m s + cpu_mass atom ! i\<rparr>) [0..<n] s
   = s\<lparr>masses_m := fold (\<lambda>i m. m[i := cpu_mass atom ! i]) [0..<n] (masses_m s),
        mass_m := mass_m s + (\<Sum>i<n. cpu_mass atom ! i)\<rparr>"
  by (induction n) (simp_all add: ac_simps)

lemma length_resize: "length (resize n v) = n"
  by (simp add: resize_def)

lemma length_gpu_resize: "length (gpu_resize n v) = n"
  by (simp add: gpu_resize_def)

lemma initialize_unfold:
  assumes "enabled_m s" and "length potentials = 2" and "potentials ! 1 = 1"
  shows "\<exists>s1. initialize pot pj potentials atom s =
           Inr (let d = compute_dipole_and_jacobian pot pj 0 atom s1
                in d\<lparr>q0 := coupling_strength d * cpu_dipole_m d ! 2 / cavity_frequency d,
                     cos_integral := 0, sin_integral := 0, prevtime := 0,
                     prevdipole := std_copy (cpu_dipole_m d) (prevdipole d)\<rparr>)
         \<and> enabled_m s1
         \<and> coupling_strength s1 = coupling_strength s
         \<and> cavity_frequency s1 = cavity_frequency s
         \<and> charge s1 = charge s
         \<and> number_of_atoms_m s1 = number_of_atoms_m s
         \<and> length (prevdipole s1) = 3 \<and> length (cpu_dipole_m s1) = 3
         \<and> length (gpu_dipole_m s1) = 3
         \<and> mass_m s1 = mass_m s + (\<Sum>i<number_of_atoms_m s. cpu_mass atom ! i)"
  using assms
  apply (simp add: initialize_def Let_def case_prod_beta)
  apply (rule exI, rule conjI, rule refl)
  apply (simp add: mass_loop length_resize length_gpu_resize)
  done

section \<open>The reported dipole: claim C5\<close>

lemma copy_positions_length: "length (copy_positions N ref n g) = length g"
  by (simp add: copy_positions_def)

lemma copy_positions_nth:
  assumes "idx < length g"
  shows "copy_positions N ref n g ! idx =
     (if n < N \<and> idx < 3 * N \<and> idx mod N = n then ref ! idx else g ! idx)"
proof (cases "n < N")
  case False
  then show ?thesis by (simp add: copy_positions_def)
next
  case True
  show ?thesis
    unfolding stride_index [OF True]
    using True assms by (auto simp: copy_positions_def nth_list_update)
qed

lemma launch_copy_positions:
  assumes "idx < 3 * N" and "3 * N \<le> length g"
  shows "launch ((N - 1) div 128 + 1) 128 (copy_positions N ref) g ! idx = ref ! idx"
proof -
  have "idx < length g" using assms by simp
  from launch_strided [of "copy_positions N ref" N "\<lambda>i v. ref ! i" idx g,
      OF copy_positions_length copy_positions_nth this]
  show ?thesis using assms(1) by simp
qed

lemma compute_dipole_positions:
  assumes "enabled_m s"
  shows "position_per_atom (atom_copy (compute_dipole_and_jacobian pot pj step atom s))
     = launch ((number_of_atoms_m s - 1) div 128 + 1) 128
         (copy_positions (number_of_atoms_m s) (position_per_atom atom))
         (position_per_atom (atom_copy s))"
  using assms
  by (simp add: compute_dipole_and_jacobian_def Let_def upt_3 get_dipole_jacobian_frame
      get_dipole_frame)

lemma compute_dipole_virial:
  assumes "enabled_m s"
  shows "\<exists>zeroed. virial_per_atom (atom_copy (compute_dipole_and_jacobian pot pj step atom s))
     = snd (snd (pot (atom_type (atom_copy s))
                  (position_per_atom (atom_copy (compute_dipole_and_jacobian pot pj step atom s)))
                  zeroed))"
proof -
  let ?N = "number_of_atoms_m s"
  define s1 where "s1 = s\<lparr>atom_copy := (atom_copy s)\<lparr>position_per_atom :=
      launch ((?N - 1) div 128 + 1) 128 (copy_positions ?N (position_per_atom atom))
        (position_per_atom (atom_copy s))\<rparr>\<rparr>"
  have v: "virial_per_atom (atom_copy (compute_dipole_and_jacobian pot pj step atom s))
      = virial_per_atom (atom_copy (get_dipole pot s1))"
    using assms
    by (simp add: compute_dipole_and_jacobian_def Let_def upt_3 get_dipole_jacobian_frame
        s1_def)
  have p: "position_per_atom (atom_copy (compute_dipole_and_jacobian pot pj step atom s))
      = position_per_atom (atom_copy s1)"
    using assms by (simp add: compute_dipole_positions s1_def)
  have t: "atom_type (atom_copy s1) = atom_type (atom_copy s)" by (simp add: s1_def)
  show ?thesis
    using get_dipole_virial [of pot s1] unfolding v p t .
qed

text \<open>
  Claim C5. For every configuration, component \<open>c\<close> of the dipole that
  \<open>compute_dipole_and_jacobian\<close> reports is the sum of the \<open>N\<close> per-atom contributions
  (the virial buffer that the evaluator filled for the copied positions) times
  \<open>BOHR_IN_ANGSTROM\<close>, plus the charge times the center of mass of that axis,
  \<open>\<Sum> mass\<^sub>i position\<^sub>i / \<Sum> mass\<^sub>i\<close>. The state has the buffer sizes that
  \<open>initialize\<close> gives, and \<open>mass_\<close> holds the sum of the masses, as \<open>initialize\<close>
  accumulates it.
\<close>

theorem reported_dipole:
  assumes "enabled_m s"
    and "length (gpu_dipole_m s) = 3" and "length (cpu_dipole_m s) = 3"
    and "3 * number_of_atoms_m s \<le> length (position_per_atom (atom_copy s))"
    and "mass_m s = (\<Sum>a<number_of_atoms_m s. mass (atom_copy s) ! a)"
    and "c < 3"
  shows "cpu_dipole_m (compute_dipole_and_jacobian pot pj step atom s) ! c
       = (\<Sum>a<number_of_atoms_m s.
            virial_per_atom (atom_copy (compute_dipole_and_jacobian pot pj step atom s))
              ! (c * number_of_atoms_m s + a)) * BOHR_IN_ANGSTROM
         + double_of_int (charge s)
           * ((\<Sum>a<number_of_atoms_m s.
                 mass (atom_copy s) ! a * position_per_atom atom ! (c * number_of_atoms_m s + a))
              / (\<Sum>a<number_of_atoms_m s. mass (atom_copy s) ! a))
     \<and> (\<exists>zeroed.
           virial_per_atom (atom_copy (compute_dipole_and_jacobian pot pj step atom s))
           = snd (snd (pot (atom_type (atom_copy s))
                  (position_per_atom (atom_copy (compute_dipole_and_jacobian pot pj step atom s)))
                  zeroed)))
     \<and> (\<forall>idx<3 * number_of_atoms_m s.
           position_per_atom (atom_copy (compute_dipole_and_jacobian pot pj step atom s)) ! idx
           = position_per_atom atom ! idx)"
proof -
  let ?N = "number_of_atoms_m s"
  let ?r = "compute_dipole_and_jacobian pot pj step atom s"
  have pos: "position_per_atom (atom_copy ?r) ! idx = position_per_atom atom ! idx"
    if "idx < 3 * ?N" for idx
    unfolding compute_dipole_positions [OF assms(1)]
    using that assms(4) by (rule launch_copy_positions)
  have idx: "c * ?N + a < 3 * ?N" if "a < ?N" for a
  proof -
    have "c \<le> 2" using assms(6) by simp
    then have "c * ?N \<le> 2 * ?N" by (rule mult_le_mono1)
    then show ?thesis using that by linarith
  qed
  have val: "cpu_dipole_m ?r ! c
      = corrected_dipole ?N (virial_per_atom (atom_copy ?r)) (mass (atom_copy s))
          (position_per_atom (atom_copy ?r)) (mass_m s) (charge s) c"
    using assms(6) by (simp add: compute_dipole_value [OF assms(1-3)])
  have com: "(\<Sum>a<?N. mass (atom_copy s) ! a * position_per_atom (atom_copy ?r) ! (c * ?N + a))
      = (\<Sum>a<?N. mass (atom_copy s) ! a * position_per_atom atom ! (c * ?N + a))"
    by (intro sum.cong) (simp_all add: pos idx)
  have "cpu_dipole_m ?r ! c
      = (\<Sum>a<?N. virial_per_atom (atom_copy ?r) ! (c * ?N + a)) * BOHR_IN_ANGSTROM
         + double_of_int (charge s)
           * ((\<Sum>a<?N. mass (atom_copy s) ! a * position_per_atom atom ! (c * ?N + a))
              / (\<Sum>a<?N. mass (atom_copy s) ! a))"
    unfolding val corrected_dipole_def com assms(5) ..
  then show ?thesis
    using compute_dipole_virial [OF assms(1), of pot pj step atom] pos by blast
qed


lemma power_double: "Finite a ^ n = Finite (a ^ n)"
  by (induction n) (simp_all add: one_double_def)

lemma BOHR_IN_ANGSTROM_value: "BOHR_IN_ANGSTROM = Finite 0.529177249"
  by (simp add: BOHR_IN_ANGSTROM_def numeral_double power_double)

lemma sum_lessThan_2: "(\<Sum>a<2. f a) = f 0 + f 1" for f :: "nat \<Rightarrow> double"
  by (simp add: numeral_2_eq_2)

theorem reported_dipole_witness:
  "enabled_m example_cavity
   \<and> length (gpu_dipole_m example_cavity) = 3 \<and> length (cpu_dipole_m example_cavity) = 3
   \<and> 3 * number_of_atoms_m example_cavity
       \<le> length (position_per_atom (atom_copy example_cavity))
   \<and> mass_m example_cavity
       = (\<Sum>a<number_of_atoms_m example_cavity. mass (atom_copy example_cavity) ! a)
   \<and> (2::nat) < 3
   \<and> cpu_dipole_m (compute_dipole_and_jacobian example_compute null_compute_jacobian 0
                      example_atom example_cavity) ! 2
       = Finite (9 * 0.529177249 + 23 / 4)"
proof -
  let ?r = "compute_dipole_and_jacobian example_compute null_compute_jacobian 0
              example_atom example_cavity"
  have N: "number_of_atoms_m example_cavity = 2" by (simp add: example_cavity_def)
  have h: "enabled_m example_cavity"
    "length (gpu_dipole_m example_cavity) = 3" "length (cpu_dipole_m example_cavity) = 3"
    "3 * number_of_atoms_m example_cavity \<le> length (position_per_atom (atom_copy example_cavity))"
    "mass_m example_cavity
       = (\<Sum>a<number_of_atoms_m example_cavity. mass (atom_copy example_cavity) ! a)"
    "(2::nat) < 3"
    unfolding N sum_lessThan_2 by (simp_all add: example_cavity_def example_atom_def)
  note t = reported_dipole [OF h, of example_compute null_compute_jacobian 0 example_atom]
  from t obtain zeroed where "virial_per_atom (atom_copy ?r)
      = snd (snd (example_compute (atom_type (atom_copy example_cavity))
                    (position_per_atom (atom_copy ?r)) zeroed))"
    by blast
  then have V: "virial_per_atom (atom_copy ?r) = map (\<lambda>n. Finite (real n)) [0..<18]"
    by (simp add: example_compute_def case_prod_beta)
  have val: "charge example_cavity = 1"
    "mass (atom_copy example_cavity) = [Finite 1, Finite 3]"
    "position_per_atom example_atom = [Finite 1, Finite 2, Finite 3, Finite 4, Finite 5, Finite 6]"
    by (simp_all add: example_cavity_def example_atom_def)
  have "cpu_dipole_m ?r ! 2 = Finite (9 * 0.529177249 + 23 / 4)"
    using t unfolding N sum_lessThan_2 V val
    by (simp add: BOHR_IN_ANGSTROM_value double_of_int_def)
  then show ?thesis using h by blast
qed

section \<open>Initialization and division by zero: claims C7, C9 and C10\<close>

lemma divide_by_zero: "x / Finite 0 = NonFinite"
  by (cases x) simp_all

lemma nonfinite_absorbs:
  "x + NonFinite = NonFinite" "NonFinite + x = NonFinite"
  "x * NonFinite = NonFinite" "NonFinite * x = NonFinite"
  by (cases x; simp)+

lemma compute_dipole_length:
  assumes "enabled_m s" and "length (gpu_dipole_m s) = 3" and "length (cpu_dipole_m s) = 3"
  shows "length (cpu_dipole_m (compute_dipole_and_jacobian pot pj step atom s)) = 3"
  by (simp add: compute_dipole_value [OF assms])

lemma compute_dipole_zero_mass:
  assumes "enabled_m s" and "length (gpu_dipole_m s) = 3" and "length (cpu_dipole_m s) = 3"
    and "mass_m s = Finite 0"
  shows "cpu_dipole_m (compute_dipole_and_jacobian pot pj step atom s)
       = [NonFinite, NonFinite, NonFinite]"
  by (simp add: compute_dipole_value [OF assms(1-3)] map_upt_3 corrected_dipole_def assms(4)
      divide_by_zero nonfinite_absorbs)

lemma initialize_result:
  assumes "enabled_m s" and "length potentials = 2" and "potentials ! 1 = 1"
  shows "\<exists>s1. enabled_m s1 \<and> number_of_atoms_m s1 = number_of_atoms_m s
           \<and> length (gpu_dipole_m s1) = 3 \<and> length (cpu_dipole_m s1) = 3
           \<and> mass_m s1 = mass_m s + (\<Sum>i<number_of_atoms_m s. cpu_mass atom ! i)
           \<and> length (cpu_dipole_m (compute_dipole_and_jacobian pot pj 0 atom s1)) = 3
           \<and> initialize pot pj potentials atom s =
               Inr ((compute_dipole_and_jacobian pot pj 0 atom s1)
                     \<lparr>q0 := coupling_strength s
                              * cpu_dipole_m (compute_dipole_and_jacobian pot pj 0 atom s1) ! 2
                              / cavity_frequency s,
                      cos_integral := Finite 0, sin_integral := Finite 0,
                      prevtime := Finite 0,
                      prevdipole := cpu_dipole_m (compute_dipole_and_jacobian pot pj 0 atom s1)\<rparr>)"
proof -
  from initialize_unfold [OF assms, of pot pj atom] obtain s1 where
    init: "initialize pot pj potentials atom s =
           Inr (let d = compute_dipole_and_jacobian pot pj 0 atom s1
                in d\<lparr>q0 := coupling_strength d * cpu_dipole_m d ! 2 / cavity_frequency d,
                     cos_integral := 0, sin_integral := 0, prevtime := 0,
                     prevdipole := std_copy (cpu_dipole_m d) (prevdipole d)\<rparr>)"
    and s1: "enabled_m s1" "coupling_strength s1 = coupling_strength s"
      "cavity_frequency s1 = cavity_frequency s" "number_of_atoms_m s1 = number_of_atoms_m s"
      "length (prevdipole s1) = 3" "length (cpu_dipole_m s1) = 3" "length (gpu_dipole_m s1) = 3"
      "mass_m s1 = mass_m s + (\<Sum>i<number_of_atoms_m s. cpu_mass atom ! i)"
    by blast
  let ?d = "compute_dipole_and_jacobian pot pj 0 atom s1"
  have len: "length (cpu_dipole_m ?d) = 3"
    using s1 by (intro compute_dipole_length) simp_all
  then have "std_copy (cpu_dipole_m ?d) (prevdipole ?d) = cpu_dipole_m ?d"
    using s1 by (simp add: std_copy_same_length compute_dipole_frame)
  then have "initialize pot pj potentials atom s =
      Inr (?d\<lparr>q0 := coupling_strength s * cpu_dipole_m ?d ! 2 / cavity_frequency s,
              cos_integral := Finite 0, sin_integral := Finite 0, prevtime := Finite 0,
              prevdipole := cpu_dipole_m ?d\<rparr>)"
    unfolding init by (simp add: Let_def compute_dipole_frame s1 zero_double_def)
  then show ?thesis using s1 len by blast
qed

text \<open>
  Claim C7. When the cavity is enabled and the two potentials are configured with a dipole
  model second, \<open>initialize\<close> evaluates the dipole (step 0) and then sets
  \<open>q0 = \<lambda> \<mu>z / \<omega>\<close> from that dipole, \<open>cos_integral\<close>, \<open>sin_integral\<close> and
  \<open>prevtime\<close> to 0, and \<open>prevdipole\<close> to that dipole.
\<close>

theorem initialize_oscillator:
  assumes "enabled_m s" and "length potentials = 2" and "potentials ! 1 = 1"
  shows "\<exists>s1. number_of_atoms_m s1 = number_of_atoms_m s
           \<and> length (cpu_dipole_m (compute_dipole_and_jacobian pot pj 0 atom s1)) = 3
           \<and> initialize pot pj potentials atom s =
               Inr ((compute_dipole_and_jacobian pot pj 0 atom s1)
                     \<lparr>q0 := coupling_strength s
                              * cpu_dipole_m (compute_dipole_and_jacobian pot pj 0 atom s1) ! 2
                              / cavity_frequency s,
                      cos_integral := Finite 0, sin_integral := Finite 0,
                      prevtime := Finite 0,
                      prevdipole := cpu_dipole_m (compute_dipole_and_jacobian pot pj 0 atom s1)\<rparr>)"
  using initialize_result [OF assms, of atom pot pj] by blast

theorem initialize_oscillator_witness:
  "enabled_m example_cavity \<and> length [0, 1 :: int] = 2 \<and> [0, 1 :: int] ! 1 = 1
   \<and> (case initialize example_compute null_compute_jacobian [0, 1] example_atom example_cavity of
         Inl e \<Rightarrow> False
       | Inr s' \<Rightarrow> q0 s' = Finite 2 * cpu_dipole_m s' ! 2 / Finite 1
           \<and> cos_integral s' = Finite 0 \<and> sin_integral s' = Finite 0
           \<and> prevtime s' = Finite 0 \<and> prevdipole s' = cpu_dipole_m s'
           \<and> length (prevdipole s') = 3)"
proof -
  have h: "enabled_m example_cavity" "length [0, 1 :: int] = 2" "[0, 1 :: int] ! 1 = 1"
    by (simp_all add: example_cavity_def)
  have val: "coupling_strength example_cavity = Finite 2"
    "cavity_frequency example_cavity = Finite 1"
    by (simp_all add: example_cavity_def)
  from initialize_oscillator [OF h, of example_compute null_compute_jacobian example_atom]
  obtain s1 where
    "length (cpu_dipole_m (compute_dipole_and_jacobian example_compute null_compute_jacobian 0
                             example_atom s1)) = 3"
    "initialize example_compute null_compute_jacobian [0, 1] example_atom example_cavity =
       Inr ((compute_dipole_and_jacobian example_compute null_compute_jacobian 0 example_atom s1)
             \<lparr>q0 := coupling_strength example_cavity
                      * cpu_dipole_m (compute_dipole_and_jacobian example_compute
                                        null_compute_jacobian 0 example_atom s1) ! 2
                      / cavity_frequency example_cavity,
              cos_integral := Finite 0, sin_integral := Finite 0,
              prevtime := Finite 0,
              prevdipole := cpu_dipole_m (compute_dipole_and_jacobian example_compute
                                            null_compute_jacobian 0 example_atom s1)\<rparr>)"
    by blast
  then show ?thesis using h by (simp add: val)
qed


lemma initialize_zero_mass:
  assumes "enabled_m s" and "length potentials = 2" and "potentials ! 1 = 1"
    and "mass_m s + (\<Sum>i<number_of_atoms_m s. cpu_mass atom ! i) = Finite 0"
  shows "\<exists>s'. initialize pot pj potentials atom s = Inr s'
           \<and> cpu_dipole_m s' = [NonFinite, NonFinite, NonFinite]"
proof -
  from initialize_result [OF assms(1-3), of atom pot pj] obtain s1 where
    s1: "enabled_m s1" "length (gpu_dipole_m s1) = 3" "length (cpu_dipole_m s1) = 3"
      "mass_m s1 = mass_m s + (\<Sum>i<number_of_atoms_m s. cpu_mass atom ! i)"
    and init: "initialize pot pj potentials atom s =
               Inr ((compute_dipole_and_jacobian pot pj 0 atom s1)
                     \<lparr>q0 := coupling_strength s
                              * cpu_dipole_m (compute_dipole_and_jacobian pot pj 0 atom s1) ! 2
                              / cavity_frequency s,
                      cos_integral := Finite 0, sin_integral := Finite 0,
                      prevtime := Finite 0,
                      prevdipole := cpu_dipole_m (compute_dipole_and_jacobian pot pj 0 atom s1)\<rparr>)"
    by blast
  have "cpu_dipole_m (compute_dipole_and_jacobian pot pj 0 atom s1)
      = [NonFinite, NonFinite, NonFinite]"
    using s1 assms(4) by (intro compute_dipole_zero_mass) simp_all
  then show ?thesis unfolding init by simp
qed

lemma initialize_zero_frequency:
  assumes "enabled_m s" and "length potentials = 2" and "potentials ! 1 = 1"
    and "cavity_frequency s = Finite 0"
  shows "\<exists>s'. initialize pot pj potentials atom s = Inr s' \<and> q0 s' = NonFinite"
  using initialize_result [OF assms(1-3), of atom pot pj]
  by (auto simp: assms(4) divide_by_zero)

text \<open>
  Claim C9, amended. The total mass is not checked. When it is zero (in particular when
  no mass has been accumulated), \<open>compute_dipole_and_jacobian\<close> divides by it and reports
  a non-finite value in all three components of the dipole, and \<open>initialize\<close>, the only
  caller that can report an error, returns normally with that dipole.
\<close>

theorem zero_total_mass_not_checked:
  "(enabled_m s \<and> length (gpu_dipole_m s) = 3 \<and> length (cpu_dipole_m s) = 3
      \<and> mass_m s = Finite 0
    \<longrightarrow> cpu_dipole_m (compute_dipole_and_jacobian pot pj step atom s)
          = [NonFinite, NonFinite, NonFinite])
   \<and> (enabled_m s \<and> length potentials = 2 \<and> potentials ! 1 = 1
      \<and> mass_m s + (\<Sum>i<number_of_atoms_m s. cpu_mass atom ! i) = Finite 0
    \<longrightarrow> (\<exists>s'. initialize pot pj potentials atom s = Inr s'
           \<and> cpu_dipole_m s' = [NonFinite, NonFinite, NonFinite]))"
  using compute_dipole_zero_mass [of s pot pj step atom]
    initialize_zero_mass [of s potentials atom pot pj]
  by blast

theorem zero_total_mass_not_checked_witness:
  "enabled_m (example_cavity\<lparr>mass_m := Finite 0\<rparr>)
   \<and> length (gpu_dipole_m (example_cavity\<lparr>mass_m := Finite 0\<rparr>)) = 3
   \<and> length (cpu_dipole_m (example_cavity\<lparr>mass_m := Finite 0\<rparr>)) = 3
   \<and> mass_m (example_cavity\<lparr>mass_m := Finite 0\<rparr>) = Finite 0
   \<and> cpu_dipole_m (compute_dipole_and_jacobian example_compute null_compute_jacobian 0
         example_atom (example_cavity\<lparr>mass_m := Finite 0\<rparr>))
       = [NonFinite, NonFinite, NonFinite]
   \<and> enabled_m parsed_cavity \<and> length [0, 1 :: int] = 2 \<and> [0, 1 :: int] ! 1 = 1
   \<and> mass_m parsed_cavity + (\<Sum>i<number_of_atoms_m parsed_cavity. cpu_mass massless_atom ! i)
       = Finite 0
   \<and> (\<exists>s'. initialize example_compute null_compute_jacobian [0, 1] massless_atom parsed_cavity
              = Inr s'
           \<and> cpu_dipole_m s' = [NonFinite, NonFinite, NonFinite])"
proof -
  have h1: "enabled_m (example_cavity\<lparr>mass_m := Finite 0\<rparr>)
      \<and> length (gpu_dipole_m (example_cavity\<lparr>mass_m := Finite 0\<rparr>)) = 3
      \<and> length (cpu_dipole_m (example_cavity\<lparr>mass_m := Finite 0\<rparr>)) = 3
      \<and> mass_m (example_cavity\<lparr>mass_m := Finite 0\<rparr>) = Finite 0"
    by (simp add: example_cavity_def)
  have h2: "enabled_m parsed_cavity \<and> length [0, 1 :: int] = 2 \<and> [0, 1 :: int] ! 1 = 1
      \<and> mass_m parsed_cavity
          + (\<Sum>i<number_of_atoms_m parsed_cavity. cpu_mass massless_atom ! i) = Finite 0"
    by (simp add: parsed_cavity_def massless_atom_def)
  show ?thesis
    using h1 h2
      zero_total_mass_not_checked [of "example_cavity\<lparr>mass_m := Finite 0\<rparr>"
        example_compute null_compute_jacobian 0 example_atom]
      zero_total_mass_not_checked [of parsed_cavity
        example_compute null_compute_jacobian 0 massless_atom "[0, 1]"]
    by blast
qed

text \<open>
  Claim C9 as stated fails: for one atom of mass zero, \<open>initialize\<close> does not stop with
  an error; it returns a state whose dipole is non-finite.
\<close>

theorem zero_total_mass_counterexample:
  "map_sum id cpu_dipole_m
     (initialize null_compute null_compute_jacobian [0, 1] massless_atom parsed_cavity)
   = Inr [NonFinite, NonFinite, NonFinite]"
proof -
  have "enabled_m parsed_cavity" "length [0, 1 :: int] = 2" "[0, 1 :: int] ! 1 = 1"
    "mass_m parsed_cavity
       + (\<Sum>i<number_of_atoms_m parsed_cavity. cpu_mass massless_atom ! i) = Finite 0"
    by (simp_all add: parsed_cavity_def massless_atom_def)
  from initialize_zero_mass [OF this, of null_compute null_compute_jacobian]
  show ?thesis by auto
qed

lemma parse_accepts:
  assumes "0 \<le> lam" and "0 \<le> w"
  shows "parse 1 5 (Some lam) (Some w) (Some ch) n s =
     Inr (s\<lparr>enabled_m := True, number_of_atoms_m := n, number_of_copied_systems_m := 12 * n,
            number_of_atoms_in_copied_system_m := 12 * n * n,
            coupling_strength := Finite lam, cavity_frequency := Finite w, charge := ch\<rparr>)"
  using assms by (simp add: parse_def Let_def)

lemma parse_frequency:
  assumes "parse count num_param param2 param3 param4 n s = Inr s'"
  shows "\<exists>w. param3 = Some w \<and> 0 \<le> w \<and> cavity_frequency s' = Finite w \<and> enabled_m s'"
  using assms
  by (auto simp: parse_def Let_def split: if_splits option.splits)

text \<open>
  Claim C10. \<open>parse\<close> accepts the frequency 0 (it rejects a frequency only when the
  token is not a real number or its value is negative), and for every enabled
  configuration with frequency 0 \<open>initialize\<close> returns normally with \<open>q0\<close> the
  non-finite result of dividing by zero.
\<close>

theorem zero_frequency_division:
  "(0 \<le> lam \<longrightarrow>
      (\<exists>s1. parse 1 5 (Some lam) (Some 0) (Some ch) n s0 = Inr s1
         \<and> enabled_m s1 \<and> cavity_frequency s1 = Finite 0))
   \<and> (parse count num_param param2 param3 param4 n s0 = Inr s1 \<longrightarrow>
        (\<exists>w. param3 = Some w \<and> 0 \<le> w \<and> cavity_frequency s1 = Finite w))
   \<and> (enabled_m s \<and> cavity_frequency s = Finite 0 \<and> length potentials = 2 \<and> potentials ! 1 = 1
      \<longrightarrow> (\<exists>s2. initialize pot pj potentials atom s = Inr s2 \<and> q0 s2 = NonFinite))"
proof -
  have "0 \<le> lam \<longrightarrow>
      (\<exists>s1. parse 1 5 (Some lam) (Some 0) (Some ch) n s0 = Inr s1
         \<and> enabled_m s1 \<and> cavity_frequency s1 = Finite 0)"
    by (simp add: parse_accepts)
  moreover have "parse count num_param param2 param3 param4 n s0 = Inr s1 \<longrightarrow>
        (\<exists>w. param3 = Some w \<and> 0 \<le> w \<and> cavity_frequency s1 = Finite w)"
    using parse_frequency [of count num_param param2 param3 param4 n s0 s1] by blast
  moreover have "enabled_m s \<and> cavity_frequency s = Finite 0 \<and> length potentials = 2
      \<and> potentials ! 1 = 1
      \<longrightarrow> (\<exists>s2. initialize pot pj potentials atom s = Inr s2 \<and> q0 s2 = NonFinite)"
    using initialize_zero_frequency [of s potentials pot pj atom] by blast
  ultimately show ?thesis by blast
qed

theorem zero_frequency_division_witness:
  "(0::real) \<le> 1
   \<and> parse 1 5 (Some 1) (Some 0) (Some 0) 1 (parsed_cavity\<lparr>enabled_m := False\<rparr>)
       = Inr (parsed_cavity\<lparr>cavity_frequency := Finite 0\<rparr>)
   \<and> enabled_m (parsed_cavity\<lparr>cavity_frequency := Finite 0\<rparr>)
   \<and> cavity_frequency (parsed_cavity\<lparr>cavity_frequency := Finite 0\<rparr>) = Finite 0
   \<and> length [0, 1 :: int] = 2 \<and> [0, 1 :: int] ! 1 = 1
   \<and> (\<exists>s2. initialize example_compute null_compute_jacobian [0, 1] single_atom
               (parsed_cavity\<lparr>cavity_frequency := Finite 0\<rparr>) = Inr s2
           \<and> q0 s2 = NonFinite)"
proof -
  have p: "parse 1 5 (Some 1) (Some 0) (Some 0) 1 (parsed_cavity\<lparr>enabled_m := False\<rparr>)
       = Inr (parsed_cavity\<lparr>cavity_frequency := Finite 0\<rparr>)"
    by (simp add: parse_def Let_def parsed_cavity_def)
  have h: "enabled_m (parsed_cavity\<lparr>cavity_frequency := Finite 0\<rparr>)
      \<and> cavity_frequency (parsed_cavity\<lparr>cavity_frequency := Finite 0\<rparr>) = Finite 0
      \<and> length [0, 1 :: int] = 2 \<and> [0, 1 :: int] ! 1 = 1"
    by (simp add: parsed_cavity_def)
  show ?thesis
    using p h
      zero_frequency_division [of 1 0 1 "parsed_cavity\<lparr>enabled_m := False\<rparr>" 1 5
        "Some 1" "Some 0" "Some 0" "parsed_cavity\<lparr>cavity_frequency := Finite 0\<rparr>"
        "parsed_cavity\<lparr>cavity_frequency := Finite 0\<rparr>" "[0, 1]"
        example_compute null_compute_jacobian single_atom]
    by simp
qed

section \<open>The replicas and the Jacobian: claims C1 and C2\<close>

lemma upt_4: "[0..<4] = [0, 1, 2, 3]"
  by (simp add: upt_rec)

lemma upt_1: "[0..<1] = [0]"
  by simp

lemma displacement_value: "(0.001 :: double) = Finite (1 / 1000)"
  by (simp add: numeral_double power_double one_double_def)

text \<open>
  Claim C2 fails on the code. For one atom at \<open>(1, 2, 3)\<close> and the displacement
  \<open>0.001\<close> that \<open>compute_dipole_and_jacobian\<close> passes, Step 1 of
  \<open>get_dipole_jacobian\<close> leaves the buffer below. Replica \<open>copy_index\<close> is copied to
  the \<open>3 N\<close> entries from \<open>copy_index * N\<close> on, so each copy overwrites two thirds of
  the one before, and the shift is added at \<open>copy_index + displaced_index\<close>: no entry of
  the buffer holds the \<open>y\<close> coordinate shifted by \<open>+h\<close>. The tags are those of the claim.
\<close>

theorem replicas_single_atom:
  "fst (setup_replicas 1 0.001 [Finite 1, Finite 2, Finite 3]
          (replicate 36 (Finite 0), replicate 12 0))
     = [Finite (1 + 1 / 1000), Finite (1 + 2 / 1000), Finite (1 - 1 / 1000), Finite (1 - 2 / 1000),
        Finite 1, Finite 1, Finite 1, Finite 1, Finite 1, Finite 1, Finite 1, Finite 1,
        Finite 2, Finite (3 - 2 / 1000)] @ replicate 22 (Finite 0)
   \<and> snd (setup_replicas 1 0.001 [Finite 1, Finite 2, Finite 3]
          (replicate 36 (Finite 0), replicate 12 0))
     = [0, 1, 2, 3, 4, 5, 6, 7, 8, 9, 10, 11]
   \<and> Finite (2 + 1 / 1000)
       \<notin> set (fst (setup_replicas 1 0.001 [Finite 1, Finite 2, Finite 3]
                     (replicate 36 (Finite 0), replicate 12 0)))"
proof -
  have "setup_replicas 1 0.001 [Finite 1, Finite 2, Finite 3]
          (replicate 36 (Finite 0), replicate 12 0)
     = ([Finite (1 + 1 / 1000), Finite (1 + 2 / 1000), Finite (1 - 1 / 1000),
         Finite (1 - 2 / 1000),
         Finite 1, Finite 1, Finite 1, Finite 1, Finite 1, Finite 1, Finite 1, Finite 1,
         Finite 2, Finite (3 - 2 / 1000)] @ replicate 22 (Finite 0),
        [0, 1, 2, 3, 4, 5, 6, 7, 8, 9, 10, 11])"
    by (simp add: setup_replicas_def displace_replica_def Let_def upt_3 upt_4 upt_1
        displacement_value numeral_double one_double_def eval_nat_numeral)
  then show ?thesis by simp
qed

lemma zero_update: "(replicate n (Finite 0))[i := 0] = replicate n (Finite 0)"
  by (metis length_replicate list_update_beyond list_update_id not_le_imp_less nth_replicate
      zero_double_def)

lemma initialize_properties_zero:
  "initialize_properties N fx fy fz n1
     (replicate a (Finite 0), replicate b (Finite 0), replicate c (Finite 0))
   = (replicate a (Finite 0), replicate b (Finite 0), replicate c (Finite 0))"
proof -
  have "fold (\<lambda>c g. g[n1 + c * N := 0]) cs (replicate c (Finite 0)) = replicate c (Finite 0)"
    for cs
    by (induction cs) (simp_all add: zero_update)
  then show ?thesis
    by (simp add: initialize_properties_def zero_update)
qed

lemma launch_fixed:
  assumes "\<And>n. K n x = x"
  shows "launch blocks threads K x = x"
proof -
  have "fold K ns x = x" for ns
    by (induction ns) (simp_all add: assms)
  then show ?thesis by (simp add: launch_def)
qed

lemma upt_2: "[0..<2] = [0, 1]"
  by (simp add: upt_rec)


lemma collect_jacobian_snd:
  "snd (collect_jacobian dM m i j x) = placeholder i j (snd x)"
  by (cases x) (simp add: collect_jacobian_def Let_def case_prod_beta upt_3 placeholder_def)

lemma collect_jacobian_inner:
  "snd (fold (\<lambda>j. collect_jacobian dM m i j) js x) = fold (placeholder i) js (snd x)"
  by (induction js arbitrary: x) (simp_all add: collect_jacobian_snd)

lemma collect_jacobian_outer:
  "snd (fold (\<lambda>i. fold (\<lambda>j. collect_jacobian dM m i j) js) is x)
     = fold (\<lambda>i. fold (placeholder i) js) is (snd x)"
  by (induction "is" arbitrary: x) (simp_all add: collect_jacobian_inner)

lemma get_dipole_jacobian_value:
  "cpu_dipole_jacobian_m (get_dipole_jacobian pj h c s)
     = fold (\<lambda>i. fold (placeholder i) [0..<number_of_atoms_m s]) [0..<3] (cpu_dipole_jacobian_m s)"
  by (simp add: get_dipole_jacobian_def Let_def case_prod_beta collect_jacobian_outer)

lemma placeholder_length: "length (placeholder i j jac) = length jac"
  by (simp add: placeholder_def)

lemma placeholder_nth:
  assumes "idx < length jac"
  shows "placeholder i j jac ! idx
       = (if \<exists>k<3. idx = i * 3 + j * 9 + k then 1 else jac ! idx)"
proof -
  have "(\<exists>k<3. idx = i * 3 + j * 9 + k)
      \<longleftrightarrow> idx = i * 3 + j * 9 \<or> idx = i * 3 + j * 9 + 1 \<or> idx = i * 3 + j * 9 + 2"
    (is "?L \<longleftrightarrow> ?R")
  proof
    assume ?L
    then obtain k where k: "k < 3" "idx = i * 3 + j * 9 + k" by blast
    then have "k = 0 \<or> k = 1 \<or> k = 2" by linarith
    then show ?R using k(2) by auto
  next
    assume r: ?R
    have "(0::nat) < 3" "(1::nat) < 3" "(2::nat) < 3" by simp_all
    then show ?L using r by (metis add.right_neutral)
  qed
  then show ?thesis
    using assms by (auto simp: placeholder_def nth_list_update)
qed

lemma fold_marks:
  fixes F :: "nat \<Rightarrow> 'a list \<Rightarrow> 'a list"
  assumes step: "\<And>n l. idx < length l \<Longrightarrow>
      length (F n l) = length l \<and> F n l ! idx = (if Q n then v else l ! idx)"
    and idx: "idx < length l"
  shows "length (fold F [0..<m] l) = length l
       \<and> fold F [0..<m] l ! idx = (if \<exists>n<m. Q n then v else l ! idx)"
proof (induction m)
  case 0
  show ?case by simp
next
  case (Suc m)
  let ?prev = "fold F [0..<m] l"
  have prev: "length ?prev = length l" "?prev ! idx = (if \<exists>n<m. Q n then v else l ! idx)"
    using Suc by simp_all
  then have "idx < length ?prev" using idx by simp
  from step [OF this, of m]
  have now: "length (F m ?prev) = length l"
    "F m ?prev ! idx = (if Q m then v else ?prev ! idx)"
    using prev by simp_all
  have "(\<exists>n<Suc m. Q n) \<longleftrightarrow> Q m \<or> (\<exists>n<m. Q n)"
    by (auto simp: less_Suc_eq)
  then show ?case using now prev by (cases "Q m") auto
qed

lemma placeholder_outer:
  assumes "idx < length jac"
  shows "length (fold (\<lambda>i. fold (placeholder i) [0..<N]) [0..<m] jac) = length jac
       \<and> fold (\<lambda>i. fold (placeholder i) [0..<N]) [0..<m] jac ! idx
           = (if \<exists>i<m. \<exists>j<N. \<exists>k<3. idx = i * 3 + j * 9 + k then 1 else jac ! idx)"
proof (rule fold_marks [OF _ assms])
  fix i and l :: "double list"
  assume "idx < length l"
  then show "length (fold (placeholder i) [0..<N] l) = length l
      \<and> fold (placeholder i) [0..<N] l ! idx
          = (if \<exists>j<N. \<exists>k<3. idx = i * 3 + j * 9 + k then 1 else l ! idx)"
  proof (rule fold_marks [rotated])
    fix j and l' :: "double list"
    assume "idx < length l'"
    then show "length (placeholder i j l') = length l'
        \<and> placeholder i j l' ! idx = (if \<exists>k<3. idx = i * 3 + j * 9 + k then 1 else l' ! idx)"
      by (simp add: placeholder_length placeholder_nth)
  qed
qed

lemma jacobian_index_cover:
  fixes idx N :: nat
  assumes "idx < 9 * N"
  shows "\<exists>i<3. \<exists>j<N. \<exists>k<3. idx = i * 3 + j * 9 + k"
proof -
  define j where "j = idx div 9"
  define r where "r = idx mod 9"
  define a where "a = r div 3"
  define b where "b = r mod 3"
  have "idx = j * 9 + r" and r: "r < 9" by (simp_all add: j_def r_def)
  moreover have "r = a * 3 + b" and b: "b < 3" by (simp_all add: a_def b_def)
  ultimately have eq: "idx = a * 3 + j * 9 + b" by simp
  have j: "j < N" using assms by (simp add: j_def less_mult_imp_div_less mult.commute)
  have a: "a < 3" using r by (simp add: a_def)
  show ?thesis using eq a j b by blast
qed

lemma get_dipole_jacobian_constant:
  assumes "length (cpu_dipole_jacobian_m s) = 9 * number_of_atoms_m s"
  shows "cpu_dipole_jacobian_m (get_dipole_jacobian pj h c s)
       = replicate (9 * number_of_atoms_m s) (Finite 1)"
proof (rule nth_equalityI)
  let ?N = "number_of_atoms_m s"
  let ?jac = "cpu_dipole_jacobian_m s"
  show len: "length (cpu_dipole_jacobian_m (get_dipole_jacobian pj h c s))
      = length (replicate (9 * ?N) (Finite 1))"
  proof (cases "?jac")
    case Nil
    then show ?thesis using assms by (simp add: get_dipole_jacobian_value upt_3)
  next
    case (Cons a as)
    then have "0 < length ?jac" by simp
    from placeholder_outer [OF this, of ?N 3] show ?thesis
      using assms by (simp add: get_dipole_jacobian_value)
  qed
  fix idx
  assume "idx < length (cpu_dipole_jacobian_m (get_dipole_jacobian pj h c s))"
  then have idx: "idx < 9 * ?N" using len by simp
  then have "idx < length ?jac" using assms by simp
  from placeholder_outer [OF this, of ?N 3] jacobian_index_cover [OF idx]
  show "cpu_dipole_jacobian_m (get_dipole_jacobian pj h c s) ! idx
      = replicate (9 * ?N) (Finite 1) ! idx"
    using idx by (simp add: get_dipole_jacobian_value one_double_def)
qed

text \<open>
  Claim C1 fails on the code. For the two-atom example with charge 0 and an evaluator that
  leaves every per-atom dipole contribution of every replica at zero, the central
  difference of the claim is 0 for every entry, and the Jacobian that
  \<open>get_dipole_jacobian\<close> stores is 1 in all 18 entries.
\<close>

theorem jacobian_is_placeholder:
  "cpu_dipole_jacobian_m
     (get_dipole_jacobian null_compute_jacobian 0.001 (double_of_int 0)
        (example_cavity\<lparr>charge := 0\<rparr>))
     = replicate 18 (Finite 1)
   \<and> virial_per_atom (atom_cavity
       (get_dipole_jacobian null_compute_jacobian 0.001 (double_of_int 0)
          (example_cavity\<lparr>charge := 0\<rparr>)))
     = replicate 432 (Finite 0)"
proof -
  have N: "number_of_atoms_m (example_cavity\<lparr>charge := 0\<rparr>) = 2"
    "number_of_atoms_in_copied_system_m (example_cavity\<lparr>charge := 0\<rparr>) = 48"
    by (simp_all add: example_cavity_def)
  have jac: "length (cpu_dipole_jacobian_m (example_cavity\<lparr>charge := 0\<rparr>))
      = 9 * number_of_atoms_m (example_cavity\<lparr>charge := 0\<rparr>)"
    by (simp add: example_cavity_def)
  have buffers: "force_per_atom (atom_cavity example_cavity) = replicate 144 (Finite 0)"
    "potential_per_atom (atom_cavity example_cavity) = replicate 48 (Finite 0)"
    "virial_per_atom (atom_cavity example_cavity) = replicate 432 (Finite 0)"
    by (simp_all add: example_cavity_def example_atom_cavity_def)
  have "cpu_dipole_jacobian_m
     (get_dipole_jacobian null_compute_jacobian 0.001 (double_of_int 0)
        (example_cavity\<lparr>charge := 0\<rparr>))
     = replicate 18 (Finite 1)"
    using get_dipole_jacobian_constant [OF jac] by (simp add: N)
  moreover have "virial_per_atom (atom_cavity
       (get_dipole_jacobian null_compute_jacobian 0.001 (double_of_int 0)
          (example_cavity\<lparr>charge := 0\<rparr>)))
     = replicate 432 (Finite 0)"
    by (simp add: get_dipole_jacobian_def Let_def case_prod_beta N buffers
        null_compute_jacobian_def launch_fixed initialize_properties_zero)
  ultimately show ?thesis by blast
qed

section \<open>The state that \<open>initialize\<close> leaves\<close>

text \<open>
  The hypotheses under which the reported dipole was characterised hold after
  \<open>initialize\<close>, when \<open>mass_\<close> starts at zero (its initial value is given in
  \<open>cavity.cuh\<close>) and the outer \<open>Atom\<close> holds a mass for each of the \<open>N\<close> atoms.
\<close>

lemma sum_dipole_length: "length (sum_dipole N patches v g) = length g"
  by (simp add: sum_dipole_def upt_3)

lemma copy_from_host_length: "length (copy_from_host gpu host) = length gpu"
  by (simp add: copy_from_host_def)

lemma compute_dipole_gpu_length:
  assumes "enabled_m s" and "length (gpu_dipole_m s) = 3"
  shows "length (gpu_dipole_m (compute_dipole_and_jacobian pot pj step atom s)) = 3"
  using assms
  by (simp add: compute_dipole_and_jacobian_def Let_def upt_3 get_dipole_jacobian_frame
      get_dipole_gpu sum_dipole_length copy_from_host_length)

lemma initialize_buffers:
  assumes "enabled_m s" and "length potentials = 2" and "potentials ! 1 = 1"
  shows "\<exists>s1. initialize pot pj potentials atom s =
           Inr (let d = compute_dipole_and_jacobian pot pj 0 atom s1
                in d\<lparr>q0 := coupling_strength d * cpu_dipole_m d ! 2 / cavity_frequency d,
                     cos_integral := 0, sin_integral := 0, prevtime := 0,
                     prevdipole := std_copy (cpu_dipole_m d) (prevdipole d)\<rparr>)
         \<and> enabled_m s1
         \<and> number_of_atoms_m s1 = number_of_atoms_m s
         \<and> length (cpu_dipole_m s1) = 3 \<and> length (gpu_dipole_m s1) = 3
         \<and> length (position_per_atom (atom_copy s1)) = number_of_atoms_m s * 3
         \<and> mass (atom_copy s1)
             = copy_from_host (gpu_resize (number_of_atoms_m s) (mass (atom_copy s)))
                 (cpu_mass atom)
         \<and> mass_m s1 = mass_m s + (\<Sum>i<number_of_atoms_m s. cpu_mass atom ! i)"
  using assms
  apply (simp add: initialize_def Let_def case_prod_beta)
  apply (rule exI, rule conjI, rule refl)
  apply (simp add: mass_loop length_resize length_gpu_resize)
  done

lemma initialize_establishes:
  assumes "enabled_m s" and "length potentials = 2" and "potentials ! 1 = 1"
    and "mass_m s = Finite 0" and "number_of_atoms_m s \<le> length (cpu_mass atom)"
  shows "\<exists>s'. initialize pot pj potentials atom s = Inr s'
           \<and> enabled_m s' \<and> number_of_atoms_m s' = number_of_atoms_m s
           \<and> length (gpu_dipole_m s') = 3 \<and> length (cpu_dipole_m s') = 3
           \<and> 3 * number_of_atoms_m s' \<le> length (position_per_atom (atom_copy s'))
           \<and> mass_m s' = (\<Sum>a<number_of_atoms_m s'. mass (atom_copy s') ! a)"
proof -
  let ?N = "number_of_atoms_m s"
  from initialize_buffers [OF assms(1-3), of pot pj atom] obtain s1 where
    init: "initialize pot pj potentials atom s =
           Inr (let d = compute_dipole_and_jacobian pot pj 0 atom s1
                in d\<lparr>q0 := coupling_strength d * cpu_dipole_m d ! 2 / cavity_frequency d,
                     cos_integral := 0, sin_integral := 0, prevtime := 0,
                     prevdipole := std_copy (cpu_dipole_m d) (prevdipole d)\<rparr>)"
    and s1: "enabled_m s1" "number_of_atoms_m s1 = ?N"
      "length (cpu_dipole_m s1) = 3" "length (gpu_dipole_m s1) = 3"
      "length (position_per_atom (atom_copy s1)) = ?N * 3"
      "mass (atom_copy s1) = copy_from_host (gpu_resize ?N (mass (atom_copy s))) (cpu_mass atom)"
      "mass_m s1 = mass_m s + (\<Sum>i<?N. cpu_mass atom ! i)"
    by blast
  let ?d = "compute_dipole_and_jacobian pot pj 0 atom s1"
  have pos: "length (position_per_atom (atom_copy ?d)) = ?N * 3"
    unfolding compute_dipole_positions [OF s1(1)]
    using s1 by (simp add: launch_length copy_positions_length)
  have "(\<Sum>a<?N. mass (atom_copy s1) ! a) = (\<Sum>a<?N. cpu_mass atom ! a)"
    using assms(5)
    by (intro sum.cong) (simp_all add: s1 copy_from_host_def length_gpu_resize nth_append)
  then have mass: "mass_m ?d = (\<Sum>a<?N. mass (atom_copy ?d) ! a)"
    by (simp add: compute_dipole_frame s1 assms(4) zero_double_def [symmetric])
  show ?thesis
    unfolding init
    using s1 pos mass
    by (simp add: Let_def compute_dipole_frame compute_dipole_length compute_dipole_gpu_length)
qed

end
